theory Spec2Isabelle
  imports Complex_Main
begin

text \<open>
  The Langbly client (\<open>src/client.ts\<close>): the constructor, the retrying request helper
  \<open>fetchWithRetry\<close> with its delays and its mapping of statuses to typed errors, and the
  public operations \<open>translate\<close>, \<open>detect\<close> and \<open>languages\<close>. Promises are run in
  sequence, so a method is a function from the state it starts in to its outcome, a
  returned value or a thrown error, and the state it leaves.
\<close>

section \<open>JavaScript values used by the client\<close>

text \<open>
  A JavaScript \<open>number\<close> is a finite value, one of the two infinities, or NaN. Finite
  values are kept exact (rounding to the nearest binary64 value is not modelled, and
  there is no negative zero); a result whose magnitude would round to an infinity
  becomes one, as in IEEE 754 round-to-nearest: the threshold is
  \<open>2^1024 - 2^970\<close>, half a unit in the last place above the largest finite double.
\<close>

datatype jsnum = Fin rat | PosInf | NegInf | NaN

definition double_limit :: rat where
  "double_limit = 2 ^ 1024 - 2 ^ 970"

definition overflow :: "rat \<Rightarrow> jsnum" where
  "overflow x = (if double_limit \<le> x then PosInf
                 else if x \<le> - double_limit then NegInf
                 else Fin x)"

text \<open>\<open>Number.isFinite\<close>.\<close>

fun isFinite :: "jsnum \<Rightarrow> bool" where
  "isFinite (Fin _) = True"
| "isFinite _ = False"

fun js_negative :: "jsnum \<Rightarrow> bool" where
  "js_negative (Fin a) = (a < 0)"
| "js_negative NegInf = True"
| "js_negative _ = False"

text \<open>The operator \<open>*\<close> on numbers.\<close>

fun js_times :: "jsnum \<Rightarrow> jsnum \<Rightarrow> jsnum" where
  "js_times (Fin a) (Fin b) = overflow (a * b)"
| "js_times NaN _ = NaN"
| "js_times _ NaN = NaN"
| "js_times x y =
     (if x = Fin 0 \<or> y = Fin 0 then NaN
      else if js_negative x = js_negative y then PosInf
      else NegInf)"

text \<open>The operator \<open>+\<close> on numbers.\<close>

fun js_plus :: "jsnum \<Rightarrow> jsnum \<Rightarrow> jsnum" where
  "js_plus (Fin a) (Fin b) = overflow (a + b)"
| "js_plus NaN _ = NaN"
| "js_plus _ NaN = NaN"
| "js_plus PosInf NegInf = NaN"
| "js_plus NegInf PosInf = NaN"
| "js_plus PosInf _ = PosInf"
| "js_plus _ PosInf = PosInf"
| "js_plus NegInf _ = NegInf"
| "js_plus _ NegInf = NegInf"

text \<open>The comparisons \<open><=\<close> and \<open><\<close> on numbers: false when either side is NaN.\<close>

fun js_le :: "jsnum \<Rightarrow> jsnum \<Rightarrow> bool" where
  "js_le NaN _ = False"
| "js_le _ NaN = False"
| "js_le (Fin a) (Fin b) = (a \<le> b)"
| "js_le NegInf _ = True"
| "js_le _ PosInf = True"
| "js_le _ _ = False"

fun js_less :: "jsnum \<Rightarrow> jsnum \<Rightarrow> bool" where
  "js_less NaN _ = False"
| "js_less _ NaN = False"
| "js_less (Fin a) (Fin b) = (a < b)"
| "js_less PosInf _ = False"
| "js_less _ NegInf = False"
| "js_less _ _ = True"

text \<open>
  A loop counter that starts at 0 and is stepped by \<open>++\<close> holds a natural number. Up
  to \<open>2^53\<close> the step is exact; at \<open>2^53\<close> the sum \<open>2^53 + 1\<close> is not a binary64
  value and rounds back to \<open>2^53\<close>, so the counter stays there.
\<close>

definition counter :: "nat \<Rightarrow> jsnum" where
  "counter n = Fin (of_nat n)"

definition increment :: "nat \<Rightarrow> nat" where
  "increment n = (if n < 2 ^ 53 then Suc n else n)"

text \<open>\<open>2 ** n\<close> for a loop counter \<open>n\<close>.\<close>

definition js_pow2 :: "nat \<Rightarrow> jsnum" where
  "js_pow2 n = overflow (2 ^ n)"

text \<open>\<open>Math.min\<close> of two numbers: NaN when either is NaN.\<close>

fun js_min :: "jsnum \<Rightarrow> jsnum \<Rightarrow> jsnum" where
  "js_min NaN _ = NaN"
| "js_min _ NaN = NaN"
| "js_min NegInf _ = NegInf"
| "js_min _ NegInf = NegInf"
| "js_min PosInf y = y"
| "js_min x PosInf = x"
| "js_min (Fin a) (Fin b) = Fin (min a b)"

subsection \<open>\<open>Number(string)\<close>\<close>

text \<open>
  The platform conversion \<open>Number(s)\<close> of a string, after ECMAScript's StringToNumber:
  white space is trimmed; the empty string is 0; a binary, octal or hexadecimal
  literal (\<open>0b\<close>, \<open>0o\<close>, \<open>0x\<close>, no sign) is its integer; otherwise an optional sign
  followed by \<open>Infinity\<close> or by a decimal literal (digits, an optional fraction, an
  optional exponent); anything else is NaN. Header values are byte strings, so a
  \<open>char\<close> is one code point below 256; the white space characters in that range are
  TAB, LF, VT, FF, CR, SP and NBSP.
\<close>

definition is_ws :: "char \<Rightarrow> bool" where
  "is_ws ch = ((of_char ch :: nat) \<in> {9, 10, 11, 12, 13, 32, 160})"

definition trim :: "string \<Rightarrow> string" where
  "trim s = rev (dropWhile is_ws (rev (dropWhile is_ws s)))"

definition digit_val :: "char \<Rightarrow> nat option" where
  "digit_val ch =
     (let n = (of_char ch :: nat) in
      if 48 \<le> n \<and> n \<le> 57 then Some (n - 48)
      else if 97 \<le> n \<and> n \<le> 102 then Some (n - 87)
      else if 65 \<le> n \<and> n \<le> 70 then Some (n - 55)
      else None)"

definition is_digit :: "nat \<Rightarrow> char \<Rightarrow> bool" where
  "is_digit base ch = (case digit_val ch of None \<Rightarrow> False | Some d \<Rightarrow> d < base)"

definition digits_value :: "nat \<Rightarrow> string \<Rightarrow> nat" where
  "digits_value base ds = foldl (\<lambda>acc ch. acc * base + (case digit_val ch of None \<Rightarrow> 0 | Some d \<Rightarrow> d)) 0 ds"

definition radix_literal :: "nat \<Rightarrow> string \<Rightarrow> jsnum" where
  "radix_literal base ds =
     (if ds \<noteq> [] \<and> list_all (is_digit base) ds
      then overflow (of_nat (digits_value base ds))
      else NaN)"

definition scale10 :: "rat \<Rightarrow> int \<Rightarrow> rat" where
  "scale10 m e = (if 0 \<le> e then m * 10 ^ nat e else m / 10 ^ nat (- e))"

text \<open>The exponent part of a decimal literal: empty, or \<open>e\<close>/\<open>E\<close>, an optional sign and digits.\<close>

definition exponent_part :: "string \<Rightarrow> int option" where
  "exponent_part s =
     (case s of
        [] \<Rightarrow> Some 0
      | ch # t \<Rightarrow>
          if ch = CHR ''e'' \<or> ch = CHR ''E'' then
            (let (neg, ds) =
               (case t of
                  [] \<Rightarrow> (False, [])
                | sg # t' \<Rightarrow>
                    if sg = CHR ''-'' then (True, t')
                    else if sg = CHR ''+'' then (False, t')
                    else (False, t))
             in if ds \<noteq> [] \<and> list_all (is_digit 10) ds
                then Some (if neg then - int (digits_value 10 ds) else int (digits_value 10 ds))
                else None)
          else None)"

definition unsigned_decimal :: "string \<Rightarrow> jsnum" where
  "unsigned_decimal s =
     (if s = ''Infinity'' then PosInf
      else
        let ip = takeWhile (is_digit 10) s;
            r1 = dropWhile (is_digit 10) s;
            dot = (r1 \<noteq> [] \<and> hd r1 = CHR ''.'');
            fp = (if dot then takeWhile (is_digit 10) (tl r1) else []);
            r2 = (if dot then dropWhile (is_digit 10) (tl r1) else r1)
        in if ip = [] \<and> fp = [] then NaN
           else (case exponent_part r2 of
                   None \<Rightarrow> NaN
                 | Some e \<Rightarrow>
                     overflow (scale10 (of_nat (digits_value 10 (ip @ fp)))
                                       (e - int (length fp)))))"

fun js_negate :: "jsnum \<Rightarrow> jsnum" where
  "js_negate (Fin a) = Fin (- a)"
| "js_negate PosInf = NegInf"
| "js_negate NegInf = PosInf"
| "js_negate NaN = NaN"

definition Number_js :: "string \<Rightarrow> jsnum" where
  "Number_js str =
     (let s = trim str in
      if s = [] then Fin 0
      else if take 2 s = ''0x'' \<or> take 2 s = ''0X'' then radix_literal 16 (drop 2 s)
      else if take 2 s = ''0o'' \<or> take 2 s = ''0O'' then radix_literal 8 (drop 2 s)
      else if take 2 s = ''0b'' \<or> take 2 s = ''0B'' then radix_literal 2 (drop 2 s)
      else if hd s = CHR ''-'' then js_negate (unsigned_decimal (tl s))
      else if hd s = CHR ''+'' then unsigned_decimal (tl s)
      else unsigned_decimal s)"

text \<open>
  The decimal text of an integer; \<open>digit_char\<close> is the character of a digit below 16.
\<close>

definition digit_char :: "nat \<Rightarrow> char" where
  "digit_char d = ''0123456789ABCDEF'' ! d"

fun nat_digits :: "nat \<Rightarrow> string" where
  "nat_digits n =
     (if n < 10 then [digit_char n]
      else nat_digits (n div 10) @ [digit_char (n mod 10)])"

declare nat_digits.simps [simp del]

definition int_to_string :: "int \<Rightarrow> string" where
  "int_to_string i = (if i < 0 then CHR ''-'' # nat_digits (nat (- i)) else nat_digits (nat i))"

text \<open>
  The text of a number in a template literal. For an integer of magnitude up to
  \<open>2^53\<close> it is the decimal text of the integer. The text of any other finite number
  (the shortest decimal that reads back as the same binary64 value) is left
  unspecified; the client renders only \<open>maxRetries + 1\<close>, on a line it reaches with
  \<open>maxRetries\<close> equal to the loop counter.
\<close>

fun number_to_string :: "jsnum \<Rightarrow> string" where
  "number_to_string NaN = ''NaN''"
| "number_to_string PosInf = ''Infinity''"
| "number_to_string NegInf = ''-Infinity''"
| "number_to_string (Fin q) =
     (if q = of_int \<lfloor>q\<rfloor> \<and> \<bar>q\<bar> \<le> 2 ^ 53 then int_to_string \<lfloor>q\<rfloor> else undefined)"

subsection \<open>Parsed JSON\<close>

text \<open>
  What \<open>JSON.parse\<close> yields. An object is the list of its properties, each key once.
  A JavaScript value that may be \<open>undefined\<close> is a \<open>json option\<close>, \<open>None\<close> standing for
  \<open>undefined\<close>.
\<close>

datatype json =
    JNull
  | JBool bool
  | JNum jsnum
  | JStr string
  | JArr "json list"
  | JObj "(string \<times> json) list"

type_synonym jsval = "json option"

text \<open>\<open>a ?? b\<close>: \<open>b\<close> when \<open>a\<close> is \<open>null\<close> or \<open>undefined\<close>.\<close>

fun nullish :: "jsval \<Rightarrow> jsval \<Rightarrow> jsval" where
  "nullish None b = b"
| "nullish (Some JNull) b = b"
| "nullish (Some v) b = Some v"

text \<open>The same when \<open>b\<close> is a defined value, so that the result is one too.\<close>

fun nullish_or :: "jsval \<Rightarrow> json \<Rightarrow> json" where
  "nullish_or None b = b"
| "nullish_or (Some JNull) b = b"
| "nullish_or (Some v) b = v"

text \<open>
  \<open>a?.k\<close> for the property names the client reads (none of them is a property of a
  string, number, boolean or array): \<open>undefined\<close> unless \<open>a\<close> is an object that has
  the property.
\<close>

fun opt_chain :: "jsval \<Rightarrow> string \<Rightarrow> jsval" where
  "opt_chain (Some (JObj kvs)) k = map_of kvs k"
| "opt_chain _ k = None"

section \<open>HTTP exchange\<close>

text \<open>
  A \<open>Response\<close> as the client reads it: \<open>headers\<close> is \<open>resp.headers.get\<close> (names in
  lower case, \<open>None\<close> for \<open>null\<close>), \<open>body\<close> is what \<open>resp.json()\<close> resolves to (\<open>None\<close>
  when it rejects), and \<open>ok\<close> is the platform's test for a 2xx status.
\<close>

record response =
  status :: nat
  statusText :: string
  headers :: "string \<rightharpoonup> string"
  body :: "json option"

definition ok :: "response \<Rightarrow> bool" where
  "ok resp = (200 \<le> status resp \<and> status resp \<le> 299)"

text \<open>
  The second argument of \<open>fetch\<close>. The body is kept as the value handed to
  \<open>JSON.stringify\<close>; \<open>signal\<close> is the argument of \<open>AbortSignal.timeout\<close>.
\<close>

record RequestInit =
  init_method :: string
  init_headers :: "(string \<times> string) list option"
  init_body :: "json option"

record request =
  url :: string
  req_method :: string
  req_headers :: "(string \<times> string) list"
  req_body :: "json option"
  signal :: jsnum

text \<open>
  How a call of \<open>fetch\<close> settles: rejected with an error of the given message (a
  network failure or the timeout), or resolved with a response.
\<close>

datatype outcome = Rejected string | Resolved response

datatype event = Fetch request | Sleep jsnum

fun is_Fetch :: "event \<Rightarrow> bool" where
  "is_Fetch (Fetch _) = True"
| "is_Fetch (Sleep _) = False"

section \<open>Errors\<close>

text \<open>
  What the client throws. \<open>LangblyError message status code\<close>, and its two subclasses,
  whose constructors fix status and code; \<open>Error\<close>, \<open>TypeError\<close> and \<open>SyntaxError\<close> are
  the platform's. The message and code of a \<open>LangblyError\<close> are the values passed to
  its constructor, which may be any JSON value taken from an error body.
\<close>

datatype error =
    Error string
  | TypeError
  | SyntaxError
  | LangblyError json nat json
  | RateLimitError json "jsnum option"
  | AuthenticationError json

fun error_status :: "error \<Rightarrow> nat option" where
  "error_status (LangblyError m s c) = Some s"
| "error_status (RateLimitError m ra) = Some 429"
| "error_status (AuthenticationError m) = Some 401"
| "error_status _ = None"

fun error_code :: "error \<Rightarrow> json option" where
  "error_code (LangblyError m s c) = Some c"
| "error_code (RateLimitError m ra) = Some (JStr ''RATE_LIMITED'')"
| "error_code (AuthenticationError m) = Some (JStr ''UNAUTHENTICATED'')"
| "error_code _ = None"

section \<open>The client\<close>

record LangblyOptions =
  apiKey :: "string option"
  baseUrl :: "string option"
  timeout :: "jsnum option"
  maxRetries :: "jsnum option"

text \<open>
  The configuration fields of a client. The constructor stores \<open>maxRetries\<close> as it is
  given, so it may be any number: a fraction, negative, an infinity or NaN.
\<close>

record Langbly =
  apiKey :: string
  baseUrl :: string
  timeout :: jsnum
  maxRetries :: jsnum

text \<open>
  The state a method runs in: the object \<open>this\<close> (here \<open>self\<close>) and the world outside
  it. \<open>net k req\<close> is how the \<open>k\<close>-th call of \<open>fetch\<close> (counted from 0) settles when
  it sends \<open>req\<close>; \<open>events\<close> records every \<open>fetch\<close> and every \<open>sleep\<close> in order.
\<close>

record state =
  self :: Langbly
  net :: "nat \<Rightarrow> request \<Rightarrow> outcome"
  events :: "event list"

definition fetches :: "state \<Rightarrow> nat" where
  "fetches s = length (filter is_Fetch (events s))"

definition fetch :: "state \<Rightarrow> request \<Rightarrow> outcome \<times> state" where
  "fetch s req = (net s (fetches s) req, s\<lparr>events := events s @ [Fetch req]\<rparr>)"

definition sleep :: "state \<Rightarrow> jsnum \<Rightarrow> state" where
  "sleep s ms = s\<lparr>events := events s @ [Sleep ms]\<rparr>"

definition RETRIABLE_STATUS_CODES :: "nat set" where
  "RETRIABLE_STATUS_CODES = {429, 500, 502, 503, 504}"

text \<open>\<open>s.replace(/\/$/, "")\<close>: one slash at the end of the string is removed.\<close>

definition strip_trailing_slash :: "string \<Rightarrow> string" where
  "strip_trailing_slash s = (if s \<noteq> [] \<and> last s = CHR ''/'' then butlast s else s)"

text \<open>The constructor: \<open>!options.apiKey\<close> holds for a missing and for an empty key.\<close>

definition new_Langbly :: "LangblyOptions \<Rightarrow> error + Langbly" where
  "new_Langbly options =
     (case LangblyOptions.apiKey options of
        None \<Rightarrow> Inl (Error ''apiKey is required'')
      | Some k \<Rightarrow>
          if k = [] then Inl (Error ''apiKey is required'')
          else Inr \<lparr>apiKey = k,
                    baseUrl = strip_trailing_slash
                      (case LangblyOptions.baseUrl options of
                         None \<Rightarrow> ''https://api.langbly.com'' | Some b \<Rightarrow> b),
                    timeout = (case LangblyOptions.timeout options of
                                 None \<Rightarrow> Fin 30000 | Some t \<Rightarrow> t),
                    maxRetries = (case LangblyOptions.maxRetries options of
                                    None \<Rightarrow> Fin 2 | Some n \<Rightarrow> n)\<rparr>)"

subsection \<open>Delays\<close>

definition backoffDelay :: "nat \<Rightarrow> jsnum" where
  "backoffDelay attempt = js_min (js_times (Fin 500) (js_pow2 attempt)) (Fin 10000)"

definition getRetryDelay :: "response \<Rightarrow> nat \<Rightarrow> jsnum" where
  "getRetryDelay resp attempt =
     (let fallback = js_min (js_times (Fin 500) (js_pow2 attempt)) (Fin 10000) in
      case headers resp ''retry-after'' of
        None \<Rightarrow> fallback
      | Some retryAfter \<Rightarrow>
          if retryAfter \<noteq> [] then
            (let v = Number_js retryAfter in
             if isFinite v then js_min (js_times v (Fin 1000)) (Fin 30000)
             else fallback)
          else fallback)"

definition parseRetryAfter :: "response \<Rightarrow> jsnum option" where
  "parseRetryAfter resp =
     (case headers resp ''retry-after'' of
        None \<Rightarrow> None
      | Some header \<Rightarrow>
          if header = [] then None
          else (let v = Number_js header in if isFinite v then Some v else None))"

subsection \<open>Status to error\<close>

text \<open>
  \<open>throwForStatus\<close> never returns: the value is the error it throws. A body that is
  not JSON leaves the status text as message and the empty string as code.
\<close>

definition throwForStatus :: "response \<Rightarrow> error" where
  "throwForStatus resp =
     (let message0 = JStr (statusText resp);
          (message, code) =
            (case body resp of
               None \<Rightarrow> (message0, JStr [])
             | Some err \<Rightarrow>
                 (nullish_or (opt_chain (opt_chain (Some err) ''error'') ''message'') message0,
                  nullish_or (opt_chain (opt_chain (Some err) ''error'') ''status'') (JStr [])))
      in if status resp = 401 then AuthenticationError message
         else if status resp = 429 then RateLimitError message (parseRetryAfter resp)
         else LangblyError message (status resp) code)"

subsection \<open>The retry loop\<close>

text \<open>
  Setting a property of an object literal: an existing key keeps its place and takes
  the new value, a new key goes to the end. The spread \<open>{...a, ...b}\<close> sets the
  properties of \<open>b\<close> one by one; spreading \<open>undefined\<close> adds nothing.
\<close>

fun obj_set :: "(string \<times> 'v) list \<Rightarrow> string \<Rightarrow> 'v \<Rightarrow> (string \<times> 'v) list" where
  "obj_set [] k v = [(k, v)]"
| "obj_set ((k', v') # kvs) k v =
     (if k' = k then (k, v) # kvs else (k', v') # obj_set kvs k v)"

definition spread :: "(string \<times> 'v) list \<Rightarrow> (string \<times> 'v) list option \<Rightarrow> (string \<times> 'v) list" where
  "spread base extra =
     (case extra of
        None \<Rightarrow> base
      | Some kvs \<Rightarrow> foldl (\<lambda>acc (k, v). obj_set acc k v) base kvs)"

text \<open>The request that every attempt of one call sends.\<close>

definition build_request :: "Langbly \<Rightarrow> string \<Rightarrow> RequestInit \<Rightarrow> request" where
  "build_request c u init =
     \<lparr>url = u,
      req_method = init_method init,
      req_headers = spread [(''Authorization'', ''Bearer '' @ apiKey c),
                            (''User-Agent'', ''langbly-js/0.1.0'')] (init_headers init),
      req_body = init_body init,
      signal = timeout c\<rparr>"

text \<open>
  The \<open>for\<close> loop of \<open>fetchWithRetry\<close>, entered with the loop variable \<open>attempt\<close> and the
  variable \<open>lastError\<close>. A run that ends gives \<open>Some\<close> of the response returned or the
  error thrown, with the state it leaves; a run that never ends is \<open>None\<close>.
\<close>

partial_function (option) fetchWithRetry_loop ::
  "state \<Rightarrow> string \<Rightarrow> RequestInit \<Rightarrow> nat \<Rightarrow> error option
     \<Rightarrow> ((error + response) \<times> state) option"
where
  "fetchWithRetry_loop s u init attempt lastError =
     (if js_le (counter attempt) (maxRetries (self s)) then
        (case fetch s (build_request (self s) u init) of
           (Rejected msg, s1) \<Rightarrow>
             if js_less (counter attempt) (maxRetries (self s1)) then
               fetchWithRetry_loop (sleep s1 (backoffDelay attempt)) u init (increment attempt)
                 (Some (Error msg))
             else
               Some (Inl (LangblyError
                       (JStr (''Request failed after ''
                              @ number_to_string (js_plus (maxRetries (self s1)) (Fin 1))
                              @ '' attempts: '' @ msg))
                       0 (JStr ''CONNECTION_ERROR'')), s1)
         | (Resolved resp, s1) \<Rightarrow>
             if ok resp then Some (Inr resp, s1)
             else if status resp \<notin> RETRIABLE_STATUS_CODES then
               Some (Inl (throwForStatus resp), s1)
             else if js_less (counter attempt) (maxRetries (self s1)) then
               fetchWithRetry_loop (sleep s1 (getRetryDelay resp attempt)) u init
                 (increment attempt) lastError
             else Some (Inl (throwForStatus resp), s1))
      else
        Some (Inl (case lastError of
                Some e \<Rightarrow> e
              | None \<Rightarrow> LangblyError (JStr ''Request failed'') 0 (JStr [])), s))"

definition fetchWithRetry ::
  "state \<Rightarrow> string \<Rightarrow> RequestInit \<Rightarrow> ((error + response) \<times> state) option" where
  "fetchWithRetry s u init = fetchWithRetry_loop s u init 0 None"

definition postWithRetry :: "state \<Rightarrow> string \<Rightarrow> json \<Rightarrow> ((error + json) \<times> state) option" where
  "postWithRetry s path b =
     (case fetchWithRetry s (baseUrl (self s) @ path)
             \<lparr>init_method = ''POST'',
              init_headers = Some [(''Content-Type'', ''application/json'')],
              init_body = Some b\<rparr> of
        None \<Rightarrow> None
      | Some (Inl e, s') \<Rightarrow> Some (Inl e, s')
      | Some (Inr resp, s') \<Rightarrow>
          (case body resp of
             None \<Rightarrow> Some (Inl SyntaxError, s')
           | Some d \<Rightarrow> Some (Inr d, s')))"

subsection \<open>Reading the parsed response\<close>

text \<open>
  \<open>v.k\<close>: a TypeError on \<open>undefined\<close> and \<open>null\<close>, the property of an object,
  \<open>undefined\<close> on anything else (for the property names the client reads).
\<close>

fun get_prop :: "jsval \<Rightarrow> string \<Rightarrow> error + jsval" where
  "get_prop None k = Inl TypeError"
| "get_prop (Some JNull) k = Inl TypeError"
| "get_prop (Some (JObj kvs)) k = Inr (map_of kvs k)"
| "get_prop (Some _) k = Inr None"

text \<open>
  \<open>v[i]\<close> for an index \<open>i\<close>: an element of an array, a one-character string of a
  string, the property named by the digits of \<open>i\<close> of an object.
\<close>

fun get_index :: "jsval \<Rightarrow> nat \<Rightarrow> error + jsval" where
  "get_index None i = Inl TypeError"
| "get_index (Some JNull) i = Inl TypeError"
| "get_index (Some (JArr xs)) i = Inr (if i < length xs then Some (xs ! i) else None)"
| "get_index (Some (JStr s)) i = Inr (if i < length s then Some (JStr [s ! i]) else None)"
| "get_index (Some (JObj kvs)) i = Inr (map_of kvs (nat_digits i))"
| "get_index (Some _) i = Inr None"

text \<open>
  \<open>v.map(f)\<close>: a TypeError unless \<open>v\<close> is an array; the callback runs on the elements
  from left to right and the first error it throws ends the call.
\<close>

fun map_result :: "('a \<Rightarrow> error + 'b) \<Rightarrow> 'a list \<Rightarrow> error + 'b list" where
  "map_result f [] = Inr []"
| "map_result f (x # xs) =
     (case f x of
        Inl e \<Rightarrow> Inl e
      | Inr y \<Rightarrow> (case map_result f xs of Inl e \<Rightarrow> Inl e | Inr ys \<Rightarrow> Inr (y # ys)))"

fun array_map :: "jsval \<Rightarrow> (json \<Rightarrow> error + 'b) \<Rightarrow> error + 'b list" where
  "array_map (Some (JArr xs)) f = map_result f xs"
| "array_map _ f = Inl TypeError"

subsection \<open>translate\<close>

datatype format = Text | Html

fun format_string :: "format \<Rightarrow> string" where
  "format_string Text = ''text''"
| "format_string Html = ''html''"

record TranslateOptions =
  target :: string
  source :: "string option"
  format :: "format option"

record Translation =
  tr_text :: jsval
  tr_source :: jsval
  tr_model :: jsval

text \<open>The argument \<open>text: string | string[]\<close> and the matching result.\<close>

datatype text_arg = One string | Many "string list"

datatype translate_result = OneTranslation "Translation option" | ManyTranslations "Translation list"

definition translate_q :: "text_arg \<Rightarrow> string list" where
  "translate_q text = (case text of Many ts \<Rightarrow> ts | One t \<Rightarrow> [t])"

definition translate_body :: "text_arg \<Rightarrow> TranslateOptions \<Rightarrow> json" where
  "translate_body text options =
     JObj ([(''q'', JArr (map JStr (translate_q text))), (''target'', JStr (target options))]
           @ (case source options of
                None \<Rightarrow> []
              | Some src \<Rightarrow> if src \<noteq> [] then [(''source'', JStr src)] else [])
           @ (case format options of
                None \<Rightarrow> []
              | Some f \<Rightarrow> [(''format'', JStr (format_string f))]))"

definition translation_of :: "TranslateOptions \<Rightarrow> json \<Rightarrow> error + Translation" where
  "translation_of options item =
     (case get_prop (Some item) ''translatedText'' of
        Inl e \<Rightarrow> Inl e
      | Inr t \<Rightarrow>
          (case get_prop (Some item) ''detectedSourceLanguage'' of
             Inl e \<Rightarrow> Inl e
           | Inr d \<Rightarrow>
               (case get_prop (Some item) ''model'' of
                  Inl e \<Rightarrow> Inl e
                | Inr m \<Rightarrow>
                    Inr \<lparr>tr_text = t,
                         tr_source = nullish (nullish d (map_option JStr (source options)))
                                       (Some (JStr [])),
                         tr_model = m\<rparr>)))"

definition translate ::
  "state \<Rightarrow> text_arg \<Rightarrow> TranslateOptions \<Rightarrow> ((error + translate_result) \<times> state) option" where
  "translate s text options =
     (case postWithRetry s ''/language/translate/v2'' (translate_body text options) of
        None \<Rightarrow> None
      | Some (Inl e, s') \<Rightarrow> Some (Inl e, s')
      | Some (Inr d, s') \<Rightarrow>
          (case get_prop (Some d) ''data'' of
             Inl e \<Rightarrow> Some (Inl e, s')
           | Inr d1 \<Rightarrow>
               (case get_prop d1 ''translations'' of
                  Inl e \<Rightarrow> Some (Inl e, s')
                | Inr ts \<Rightarrow>
                    (case array_map ts (translation_of options) of
                       Inl e \<Rightarrow> Some (Inl e, s')
                     | Inr translations \<Rightarrow>
                         Some (Inr (case text of
                                      Many _ \<Rightarrow> ManyTranslations translations
                                    | One _ \<Rightarrow>
                                        OneTranslation
                                          (case translations of [] \<Rightarrow> None | t # _ \<Rightarrow> Some t)),
                               s')))))"

subsection \<open>detect\<close>

record Detection =
  language :: jsval
  confidence :: jsval

definition detect :: "state \<Rightarrow> string \<Rightarrow> ((error + Detection) \<times> state) option" where
  "detect s text =
     (case postWithRetry s ''/language/translate/v2/detect'' (JObj [(''q'', JStr text)]) of
        None \<Rightarrow> None
      | Some (Inl e, s') \<Rightarrow> Some (Inl e, s')
      | Some (Inr d, s') \<Rightarrow>
          (case get_prop (Some d) ''data'' of
             Inl e \<Rightarrow> Some (Inl e, s')
           | Inr d1 \<Rightarrow>
               (case get_prop d1 ''detections'' of
                  Inl e \<Rightarrow> Some (Inl e, s')
                | Inr ds \<Rightarrow>
                    (case get_index ds 0 of
                       Inl e \<Rightarrow> Some (Inl e, s')
                     | Inr d0 \<Rightarrow>
                         (case get_index d0 0 of
                            Inl e \<Rightarrow> Some (Inl e, s')
                          | Inr det \<Rightarrow>
                              (case get_prop det ''language'' of
                                 Inl e \<Rightarrow> Some (Inl e, s')
                               | Inr l \<Rightarrow>
                                   (case get_prop det ''confidence'' of
                                      Inl e \<Rightarrow> Some (Inl e, s')
                                    | Inr cf \<Rightarrow>
                                        Some (Inr \<lparr>language = l,
                                                   confidence = nullish cf (Some (JNum (Fin 0)))\<rparr>,
                                              s'))))))))"

subsection \<open>languages\<close>

text \<open>
  \<open>URLSearchParams.toString\<close> on the bytes of a string: letters, digits and
  \<open>* - . _\<close> stay, a space becomes \<open>+\<close>, any other byte becomes \<open>%XX\<close>.
\<close>

definition form_encode_byte :: "char \<Rightarrow> string" where
  "form_encode_byte ch =
     (let n = (of_char ch :: nat) in
      if (48 \<le> n \<and> n \<le> 57) \<or> (65 \<le> n \<and> n \<le> 90) \<or> (97 \<le> n \<and> n \<le> 122)
         \<or> n = 42 \<or> n = 45 \<or> n = 46 \<or> n = 95 then [ch]
      else if n = 32 then ''+''
      else [CHR ''%'', digit_char (n div 16), digit_char (n mod 16)])"

definition form_urlencode :: "string \<Rightarrow> string" where
  "form_urlencode s = concat (map form_encode_byte s)"

record LanguagesOptions =
  lang_target :: "string option"

record Language =
  code :: jsval
  name :: jsval

definition languages_url :: "LanguagesOptions option \<Rightarrow> string" where
  "languages_url options =
     (let qs = (case options of
                  None \<Rightarrow> []
                | Some opts \<Rightarrow>
                    (case lang_target opts of
                       None \<Rightarrow> []
                     | Some t \<Rightarrow> if t \<noteq> [] then ''target='' @ form_urlencode t else []))
      in ''/language/translate/v2/languages'' @ (if qs \<noteq> [] then ''?'' @ qs else []))"

definition language_of :: "json \<Rightarrow> error + Language" where
  "language_of lang =
     (case get_prop (Some lang) ''language'' of
        Inl e \<Rightarrow> Inl e
      | Inr c \<Rightarrow>
          (case get_prop (Some lang) ''name'' of
             Inl e \<Rightarrow> Inl e
           | Inr n \<Rightarrow> Inr \<lparr>code = c, name = n\<rparr>))"

definition languages ::
  "state \<Rightarrow> LanguagesOptions option \<Rightarrow> ((error + Language list) \<times> state) option" where
  "languages s options =
     (case fetchWithRetry s (baseUrl (self s) @ languages_url options)
             \<lparr>init_method = ''GET'', init_headers = None, init_body = None\<rparr> of
        None \<Rightarrow> None
      | Some (Inl e, s') \<Rightarrow> Some (Inl e, s')
      | Some (Inr resp, s') \<Rightarrow>
          (case body resp of
             None \<Rightarrow> Some (Inl SyntaxError, s')
           | Some d \<Rightarrow>
               (case get_prop (Some d) ''data'' of
                  Inl e \<Rightarrow> Some (Inl e, s')
                | Inr d1 \<Rightarrow>
                    (case get_prop d1 ''languages'' of
                       Inl e \<Rightarrow> Some (Inl e, s')
                     | Inr ls \<Rightarrow>
                         (case array_map ls language_of of
                            Inl e \<Rightarrow> Some (Inl e, s')
                          | Inr langs \<Rightarrow> Some (Inr langs, s'))))))"

text \<open>The request that every attempt of one \<open>translate\<close> call sends.\<close>

definition translate_request :: "Langbly \<Rightarrow> text_arg \<Rightarrow> TranslateOptions \<Rightarrow> request" where
  "translate_request c text options =
     build_request c (baseUrl c @ ''/language/translate/v2'')
       \<lparr>init_method = ''POST'',
        init_headers = Some [(''Content-Type'', ''application/json'')],
        init_body = Some (translate_body text options)\<rparr>"

section \<open>Counting the attempts\<close>

text \<open>
  How many values of the counter pass the loop test \<open>attempt <= maxRetries\<close>, and how
  many pass the test \<open>attempt < maxRetries\<close> that precedes a sleep, when \<open>maxRetries\<close>
  is below \<open>2^53\<close>: for a whole number \<open>n\<close> these are \<open>n + 1\<close> and \<open>n\<close>, for a negative
  number or NaN both are 0.
\<close>

definition attempts_allowed :: "jsnum \<Rightarrow> nat" where
  "attempts_allowed m = (case m of Fin q \<Rightarrow> nat (\<lfloor>q\<rfloor> + 1) | _ \<Rightarrow> 0)"

definition sleeps_allowed :: "jsnum \<Rightarrow> nat" where
  "sleeps_allowed m = (case m of Fin q \<Rightarrow> nat \<lceil>q\<rceil> | _ \<Rightarrow> 0)"

section \<open>The source field as the specification words it\<close>

text \<open>
  The source of a translation in the words of the specification: the item's
  \<open>detectedSourceLanguage\<close> when present (neither \<open>undefined\<close> nor \<open>null\<close>), otherwise
  the caller's \<open>options.source\<close> when provided, otherwise the empty string.
\<close>

definition spec_source :: "TranslateOptions \<Rightarrow> json \<Rightarrow> jsval" where
  "spec_source options item =
     (case opt_chain (Some item) ''detectedSourceLanguage'' of
        Some (JNull) \<Rightarrow> (case source options of Some src \<Rightarrow> Some (JStr src) | None \<Rightarrow> Some (JStr []))
      | Some d \<Rightarrow> Some d
      | None \<Rightarrow> (case source options of Some src \<Rightarrow> Some (JStr src) | None \<Rightarrow> Some (JStr [])))"

section \<open>Example values\<close>

text \<open>A client, states and responses on which the theorems below are run.\<close>

definition example_client :: Langbly where
  "example_client = \<lparr>apiKey = ''key'', baseUrl = ''https://api.langbly.com'',
                      timeout = Fin 30000, maxRetries = Fin 2\<rparr>"

definition state_with :: "jsnum \<Rightarrow> (nat \<Rightarrow> request \<Rightarrow> outcome) \<Rightarrow> state" where
  "state_with m n = \<lparr>self = example_client\<lparr>maxRetries := m\<rparr>, net = n, events = []\<rparr>"

definition example_state :: "(nat \<Rightarrow> request \<Rightarrow> outcome) \<Rightarrow> state" where
  "example_state n = \<lparr>self = example_client, net = n, events = []\<rparr>"

definition plain_response :: "nat \<Rightarrow> string \<Rightarrow> response" where
  "plain_response st txt = \<lparr>status = st, statusText = txt, headers = Map.empty, body = None\<rparr>"

definition hinted_response :: "nat \<Rightarrow> string \<Rightarrow> response" where
  "hinted_response st h =
     \<lparr>status = st, statusText = ''Unavailable'', headers = [''retry-after'' \<mapsto> h], body = None\<rparr>"

definition error_response :: "nat \<Rightarrow> string \<Rightarrow> json \<Rightarrow> response" where
  "error_response st txt b = \<lparr>status = st, statusText = txt, headers = Map.empty, body = Some b\<rparr>"

definition get_init :: RequestInit where
  "get_init = \<lparr>init_method = ''GET'', init_headers = None, init_body = None\<rparr>"

definition translations_response :: response where
  "translations_response =
     \<lparr>status = 200, statusText = ''OK'', headers = Map.empty,
      body = Some (JObj [(''data'', JObj [(''translations'',
               JArr [JObj [(''translatedText'', JStr ''Hallo'')],
                     JObj [(''translatedText'', JStr ''Dag''),
                           (''detectedSourceLanguage'', JStr ''en'')]])])])\<rparr>"

definition detections_response :: response where
  "detections_response =
     \<lparr>status = 200, statusText = ''OK'', headers = Map.empty,
      body = Some (JObj [(''data'', JObj [(''detections'',
               JArr [JArr [JObj [(''language'', JStr ''fr'')]]])])])\<rparr>"

definition languages_response :: response where
  "languages_response =
     \<lparr>status = 200, statusText = ''OK'', headers = Map.empty,
      body = Some (JObj [(''data'', JObj [(''languages'',
               JArr [JObj [(''language'', JStr ''nl''), (''name'', JStr ''Dutch'')],
                     JObj [(''language'', JStr ''fr'')]])])])\<rparr>"

definition example_options :: TranslateOptions where
  "example_options = \<lparr>target = ''nl'', source = Some ''fr'', format = None\<rparr>"

definition retried_net :: "nat \<Rightarrow> request \<Rightarrow> outcome" where
  "retried_net k req =
     (if k = 0 then Resolved (plain_response 503 ''Service Unavailable'')
      else Resolved translations_response)"

text \<open>A server that answers 503 to every request, and a network on which every request fails.\<close>

definition unavailable_net :: "nat \<Rightarrow> request \<Rightarrow> outcome" where
  "unavailable_net k req = Resolved (plain_response 503 ''Service Unavailable'')"

definition rejecting_net :: "nat \<Rightarrow> request \<Rightarrow> outcome" where
  "rejecting_net k req = Rejected ''timeout''"

section \<open>Properties of the delays\<close>

lemmas example_defs = example_state_def state_with_def example_client_def plain_response_def
  get_init_def

lemma double_limit_54: "2 ^ 54 < double_limit"
  by (simp add: double_limit_def)

lemma double_limit_big: "100000 < double_limit"
proof -
  have "(100000::rat) < 2 ^ 54" by simp
  with double_limit_54 show ?thesis by linarith
qed

lemma overflow_small: "\<bar>x\<bar> < 100000 \<Longrightarrow> overflow x = Fin x"
  using double_limit_big by (auto simp: overflow_def)

lemmas number_defs = Number_js_def trim_def is_ws_def unsigned_decimal_def is_digit_def
  digit_val_def exponent_part_def digits_value_def scale10_def radix_literal_def Let_def

lemma Number_js_examples:
  "Number_js [] = Fin 0" "Number_js ''7'' = Fin 7" "Number_js ''120'' = Fin 120"
  "Number_js ''soon'' = NaN"
  by (simp_all add: number_defs overflow_small)

lemma backoff_value:
  "js_min (js_times (Fin 500) (js_pow2 a)) (Fin 10000) = Fin (min (500 * 2 ^ a) 10000)"
proof -
  have pos: "(0::rat) < 2 ^ a" by simp
  have one: "(1::rat) \<le> 2 ^ a" by simp
  show ?thesis
  proof (cases "double_limit \<le> 2 ^ a")
    case True
    then have "(10000::rat) \<le> 500 * 2 ^ a" using double_limit_big by linarith
    with True show ?thesis by (simp add: js_pow2_def overflow_def min_def)
  next
    case False
    note small = this
    have nneg: "\<not> (2 ^ a \<le> - double_limit)" using pos double_limit_big by linarith
    show ?thesis
    proof (cases "double_limit \<le> 500 * 2 ^ a")
      case True
      then have "(10000::rat) \<le> 500 * 2 ^ a" using double_limit_big by linarith
      with True small nneg show ?thesis by (simp add: js_pow2_def overflow_def min_def)
    next
      case False
      have "\<not> (500 * 2 ^ a \<le> - double_limit)" using pos double_limit_big by linarith
      with False small nneg show ?thesis by (simp add: js_pow2_def overflow_def)
    qed
  qed
qed

lemma getRetryDelay_fallback:
  assumes "case headers resp ''retry-after'' of
             None \<Rightarrow> True
           | Some h \<Rightarrow> h = [] \<or> \<not> isFinite (Number_js h)"
  shows "getRetryDelay resp a = Fin (min (500 * 2 ^ a) 10000)"
  using assms by (auto simp: getRetryDelay_def backoff_value Let_def split: option.splits)

text \<open>
  Claim C3. The backoff delay of attempt \<open>a\<close> is \<open>min(500 * 2^a, 10000)\<close> milliseconds,
  for every \<open>a\<close> (also where \<open>2 ** a\<close> overflows): 500, 1000, 2000, 4000, 8000 and
  then the cap of 10000. It is the delay after a rejected \<open>fetch\<close>, and the delay after
  a retriable response that carries no usable \<open>Retry-After\<close> header (absent, empty, or
  not a finite number).
\<close>

theorem backoffDelay_doubles_to_cap:
  "backoffDelay a = Fin (min (500 * 2 ^ a) 10000)
   \<and> map backoffDelay [0, 1, 2, 3, 4, 5, 6] =
       [Fin 500, Fin 1000, Fin 2000, Fin 4000, Fin 8000, Fin 10000, Fin 10000]
   \<and> ((case headers resp ''retry-after'' of
          None \<Rightarrow> True
        | Some h \<Rightarrow> h = [] \<or> \<not> isFinite (Number_js h))
       \<longrightarrow> getRetryDelay resp a = backoffDelay a)"
proof -
  have v: "\<And>n. backoffDelay n = Fin (min (500 * 2 ^ n) 10000)"
    by (simp add: backoffDelay_def backoff_value)
  have "map backoffDelay [0, 1, 2, 3, 4, 5, 6] =
          [Fin 500, Fin 1000, Fin 2000, Fin 4000, Fin 8000, Fin 10000, Fin 10000]"
    by (simp add: v)
  then show ?thesis
    using v getRetryDelay_fallback by auto
qed

theorem backoffDelay_doubles_to_cap_witness:
  "headers \<lparr>status = 503, statusText = ''Service Unavailable'',
            headers = Map.empty, body = None\<rparr> ''retry-after'' = None
   \<and> getRetryDelay \<lparr>status = 503, statusText = ''Service Unavailable'',
                     headers = Map.empty, body = None\<rparr> 3 = Fin 4000
   \<and> backoffDelay 3 = Fin 4000"
  using backoffDelay_doubles_to_cap
          [of 3 "\<lparr>status = 503, statusText = ''Service Unavailable'',
                  headers = Map.empty, body = None\<rparr>"]
  by simp

section \<open>Properties of the constructor\<close>

text \<open>
  Claim C8. Constructing a client from options whose \<open>apiKey\<close> is absent or the empty
  string throws \<open>Error("apiKey is required")\<close>, and no client is produced.
\<close>

theorem new_Langbly_requires_apiKey:
  assumes "LangblyOptions.apiKey options = None \<or> LangblyOptions.apiKey options = Some []"
  shows "new_Langbly options = Inl (Error ''apiKey is required'')
         \<and> (\<forall>c. new_Langbly options \<noteq> Inr c)"
  using assms by (auto simp: new_Langbly_def)

theorem new_Langbly_requires_apiKey_witness:
  "new_Langbly \<lparr>LangblyOptions.apiKey = Some [], LangblyOptions.baseUrl = None,
                LangblyOptions.timeout = None, LangblyOptions.maxRetries = Some (Fin 5)\<rparr>
     = Inl (Error ''apiKey is required'')
   \<and> new_Langbly \<lparr>LangblyOptions.apiKey = None, LangblyOptions.baseUrl = None,
                  LangblyOptions.timeout = None, LangblyOptions.maxRetries = None\<rparr>
     = Inl (Error ''apiKey is required'')"
  using new_Langbly_requires_apiKey
          [of "\<lparr>LangblyOptions.apiKey = Some [], LangblyOptions.baseUrl = None,
                 LangblyOptions.timeout = None, LangblyOptions.maxRetries = Some (Fin 5)\<rparr>"]
        new_Langbly_requires_apiKey
          [of "\<lparr>LangblyOptions.apiKey = None, LangblyOptions.baseUrl = None,
                 LangblyOptions.timeout = None, LangblyOptions.maxRetries = None\<rparr>"]
  by simp

section \<open>Properties of the retry loop\<close>

text \<open>One turn of the loop, case by case.\<close>

lemma js_less_le: "js_less a b \<Longrightarrow> js_le a b"
  by (cases a; cases b) simp_all

lemma fetches_append [simp]:
  "fetches (s\<lparr>events := events s @ es\<rparr>) = fetches s + length (filter is_Fetch es)"
  by (simp add: fetches_def)

lemma loop_exhausted:
  "\<not> js_le (counter a) (maxRetries (self s)) \<Longrightarrow>
   fetchWithRetry_loop s u init a le =
     Some (Inl (case le of Some e \<Rightarrow> e | None \<Rightarrow> LangblyError (JStr ''Request failed'') 0 (JStr [])), s)"
  by (simp add: fetchWithRetry_loop.simps[of s u init a le])

lemma loop_rejected_retry:
  assumes "js_less (counter a) (maxRetries (self s))"
    and "net s (fetches s) (build_request (self s) u init) = Rejected msg"
  shows "fetchWithRetry_loop s u init a le =
           fetchWithRetry_loop
             (s\<lparr>events := events s @ [Fetch (build_request (self s) u init), Sleep (backoffDelay a)]\<rparr>)
             u init (increment a) (Some (Error msg))"
  using assms js_less_le[OF assms(1)]
  by (simp add: fetchWithRetry_loop.simps[of s u init a le] fetch_def sleep_def)

lemma loop_rejected_final:
  assumes "js_le (counter a) (maxRetries (self s))"
    and "\<not> js_less (counter a) (maxRetries (self s))"
    and "net s (fetches s) (build_request (self s) u init) = Rejected msg"
  shows "fetchWithRetry_loop s u init a le =
           Some (Inl (LangblyError
                   (JStr (''Request failed after ''
                          @ number_to_string (js_plus (maxRetries (self s)) (Fin 1))
                          @ '' attempts: '' @ msg))
                   0 (JStr ''CONNECTION_ERROR'')),
                 s\<lparr>events := events s @ [Fetch (build_request (self s) u init)]\<rparr>)"
  using assms
  by (simp add: fetchWithRetry_loop.simps[of s u init a le] fetch_def)

lemma loop_ok:
  assumes "js_le (counter a) (maxRetries (self s))"
    and "net s (fetches s) (build_request (self s) u init) = Resolved resp"
    and "ok resp"
  shows "fetchWithRetry_loop s u init a le =
           Some (Inr resp, s\<lparr>events := events s @ [Fetch (build_request (self s) u init)]\<rparr>)"
  using assms
  by (simp add: fetchWithRetry_loop.simps[of s u init a le] fetch_def)

lemma loop_terminal:
  assumes "js_le (counter a) (maxRetries (self s))"
    and "net s (fetches s) (build_request (self s) u init) = Resolved resp"
    and "\<not> ok resp"
    and "status resp \<notin> RETRIABLE_STATUS_CODES \<or> \<not> js_less (counter a) (maxRetries (self s))"
  shows "fetchWithRetry_loop s u init a le =
           Some (Inl (throwForStatus resp),
                 s\<lparr>events := events s @ [Fetch (build_request (self s) u init)]\<rparr>)"
  using assms
  by (auto simp: fetchWithRetry_loop.simps[of s u init a le] fetch_def)

lemma loop_response_retry:
  assumes "js_less (counter a) (maxRetries (self s))"
    and "net s (fetches s) (build_request (self s) u init) = Resolved resp"
    and "\<not> ok resp"
    and "status resp \<in> RETRIABLE_STATUS_CODES"
  shows "fetchWithRetry_loop s u init a le =
           fetchWithRetry_loop
             (s\<lparr>events := events s @ [Fetch (build_request (self s) u init),
                                       Sleep (getRetryDelay resp a)]\<rparr>)
             u init (increment a) le"
  using assms js_less_le[OF assms(1)]
  by (simp add: fetchWithRetry_loop.simps[of s u init a le] fetch_def sleep_def)

text \<open>What holds of every run of the loop that ends.\<close>

lemma loop_returned:
  assumes "fetchWithRetry_loop s u init a le = Some (r, s')"
  shows "self s' = self s \<and> net s' = net s
       \<and> (\<exists>es. events s' = events s @ es
              \<and> (\<forall>e \<in> set es. is_Fetch e \<longrightarrow> e = Fetch (build_request (self s) u init))
              \<and> (js_le (counter a) (maxRetries (self s)) \<longrightarrow>
                    (\<exists>es'. es = Fetch (build_request (self s) u init) # es')))
       \<and> (\<forall>resp. r = Inr resp \<longrightarrow> ok resp)"
proof -
  let ?P = "\<lambda>(s::state) (u::string) (init::RequestInit) (a::nat) (le::error option)
      (y::(error + response) \<times> state).
      self (snd y) = self s \<and> net (snd y) = net s
       \<and> (\<exists>es. events (snd y) = events s @ es
              \<and> (\<forall>e \<in> set es. is_Fetch e \<longrightarrow> e = Fetch (build_request (self s) u init))
              \<and> (js_le (counter a) (maxRetries (self s)) \<longrightarrow>
                    (\<exists>es'. es = Fetch (build_request (self s) u init) # es')))
       \<and> (\<forall>resp. fst y = Inr resp \<longrightarrow> ok resp)"
  have "?P s u init a le (r, s')"
  proof (rule fetchWithRetry_loop.raw_induct[where P = ?P, OF _ assms])
    fix f and s :: state and u :: string and init :: RequestInit and a :: nat
      and le :: "error option" and y :: "(error + response) \<times> state"
    assume IH: "\<And>s u init a le y. f s u init a le = Some y \<Longrightarrow> ?P s u init a le y"
    let ?req = "build_request (self s) u init"
    let ?s1 = "s\<lparr>events := events s @ [Fetch ?req]\<rparr>"
    assume body: "(if js_le (counter a) (maxRetries (self s)) then
        (case fetch s (build_request (self s) u init) of
           (Rejected msg, s1) \<Rightarrow>
             if js_less (counter a) (maxRetries (self s1)) then
               f (sleep s1 (backoffDelay a)) u init (increment a) (Some (Error msg))
             else
               Some (Inl (LangblyError
                       (JStr (''Request failed after ''
                              @ number_to_string (js_plus (maxRetries (self s1)) (Fin 1))
                              @ '' attempts: '' @ msg))
                       0 (JStr ''CONNECTION_ERROR'')), s1)
         | (Resolved resp, s1) \<Rightarrow>
             if ok resp then Some (Inr resp, s1)
             else if status resp \<notin> RETRIABLE_STATUS_CODES then
               Some (Inl (throwForStatus resp), s1)
             else if js_less (counter a) (maxRetries (self s1)) then
               f (sleep s1 (getRetryDelay resp a)) u init (increment a) le
             else Some (Inl (throwForStatus resp), s1))
      else
        Some (Inl (case le of
                Some e \<Rightarrow> e
              | None \<Rightarrow> LangblyError (JStr ''Request failed'') 0 (JStr [])), s)) = Some y"
    have cont: "?P s u init a le y"
      if c: "f (s\<lparr>events := events s @ [Fetch ?req, Sleep d]\<rparr>) u init (increment a) le' = Some y"
      for d le'
    proof -
      let ?s2 = "s\<lparr>events := events s @ [Fetch ?req, Sleep d]\<rparr>"
      from IH[OF c] obtain es where
        f: "self (snd y) = self s" "net (snd y) = net s"
        and es: "events (snd y) = events ?s2 @ es"
          "\<forall>e \<in> set es. is_Fetch e \<longrightarrow> e = Fetch ?req"
        and okr: "\<forall>resp. fst y = Inr resp \<longrightarrow> ok resp"
        by auto
      from es have "events (snd y) = events s @ (Fetch ?req # Sleep d # es)
          \<and> (\<forall>e \<in> set (Fetch ?req # Sleep d # es). is_Fetch e \<longrightarrow> e = Fetch ?req)"
        by simp
      with f okr show ?thesis by blast
    qed
    have stop: "?P s u init a le (r0, ?s1)" if "\<forall>resp. r0 = Inr resp \<longrightarrow> ok resp" for r0
      using that by simp
    show "?P s u init a le y"
    proof (cases "js_le (counter a) (maxRetries (self s))")
      case False
      with body show ?thesis by auto
    next
      case True
      show ?thesis
      proof (cases "net s (fetches s) ?req")
        case (Rejected msg)
        show ?thesis
        proof (cases "js_less (counter a) (maxRetries (self s))")
          case l: True
          from body True Rejected l
          have "f (s\<lparr>events := events s @ [Fetch ?req, Sleep (backoffDelay a)]\<rparr>) u init
                  (increment a) (Some (Error msg)) = Some y"
            by (simp add: fetch_def sleep_def)
          then show ?thesis by (rule cont)
        next
          case l: False
          from body True Rejected l obtain r0 where "y = (r0, ?s1)" "\<forall>resp. r0 = Inr resp \<longrightarrow> ok resp"
            by (auto simp: fetch_def)
          with stop show ?thesis by blast
        qed
      next
        case (Resolved resp)
        show ?thesis
        proof (cases "\<not> ok resp \<and> status resp \<in> RETRIABLE_STATUS_CODES
                      \<and> js_less (counter a) (maxRetries (self s))")
          case r: True
          from body True Resolved r
          have "f (s\<lparr>events := events s @ [Fetch ?req, Sleep (getRetryDelay resp a)]\<rparr>) u init
                  (increment a) le = Some y"
            by (simp add: fetch_def sleep_def)
          then show ?thesis by (rule cont)
        next
          case r: False
          from body True Resolved r obtain r0 where "y = (r0, ?s1)" "\<forall>resp. r0 = Inr resp \<longrightarrow> ok resp"
            by (auto simp: fetch_def split: if_splits)
          with stop show ?thesis by blast
        qed
      qed
    qed
  qed
  then show ?thesis by simp
qed

text \<open>With \<open>maxRetries\<close> below \<open>2^53\<close> every run of the loop ends, within the counts.\<close>

lemma loop_ends_Fin:
  assumes "maxRetries (self s) = Fin q" and "q < 2 ^ 53"
  shows "\<exists>r s' es. fetchWithRetry_loop s u init a le = Some (r, s')
           \<and> events s' = events s @ es
           \<and> length (filter is_Fetch es) \<le> nat (\<lfloor>q\<rfloor> + 1) - a
           \<and> length (filter (\<lambda>e. \<not> is_Fetch e) es) \<le> nat \<lceil>q\<rceil> - a"
  using assms(1)
proof (induction "nat (\<lfloor>q\<rfloor> + 1 - int a)" arbitrary: a s le)
  case 0
  then have "\<lfloor>q\<rfloor> < int a" by linarith
  then have "q < of_int (int a)" by (simp only: floor_less_iff)
  then have "\<not> js_le (counter a) (maxRetries (self s))"
    using "0.prems" by (simp add: counter_def)
  from loop_exhausted[OF this] show ?case by simp
next
  case (Suc d)
  let ?req = "build_request (self s) u init"
  from Suc.hyps(2) have "int a \<le> \<lfloor>q\<rfloor>" by linarith
  then have aq: "of_int (int a) \<le> q" by (simp only: le_floor_iff)
  then have le: "js_le (counter a) (maxRetries (self s))"
    using Suc.prems by (simp add: counter_def)
  have fpos: "a < nat (\<lfloor>q\<rfloor> + 1)" using Suc.hyps(2) by linarith
  have stop: "\<exists>r s' es. Some (r0, s\<lparr>events := events s @ [Fetch ?req]\<rparr>) = Some (r, s')
           \<and> events s' = events s @ es
           \<and> length (filter is_Fetch es) \<le> nat (\<lfloor>q\<rfloor> + 1) - a
           \<and> length (filter (\<lambda>e. \<not> is_Fetch e) es) \<le> nat \<lceil>q\<rceil> - a" for r0
    using fpos by (intro exI[of _ r0] exI[of _ "s\<lparr>events := events s @ [Fetch ?req]\<rparr>"]
                         exI[of _ "[Fetch ?req]"]) simp
  have cont: "\<exists>r s' es. fetchWithRetry_loop (s\<lparr>events := events s @ [Fetch ?req, Sleep dl]\<rparr>)
                           u init (increment a) le' = Some (r, s')
           \<and> events s' = events s @ es
           \<and> length (filter is_Fetch es) \<le> nat (\<lfloor>q\<rfloor> + 1) - a
           \<and> length (filter (\<lambda>e. \<not> is_Fetch e) es) \<le> nat \<lceil>q\<rceil> - a"
    if lt: "js_less (counter a) (maxRetries (self s))" for dl le'
  proof -
    let ?s2 = "s\<lparr>events := events s @ [Fetch ?req, Sleep dl]\<rparr>"
    from lt Suc.prems have altq: "of_int (int a) < q" by (simp add: counter_def)
    then have "int a < \<lceil>q\<rceil>" by (simp only: less_ceiling_iff)
    then have spos: "a < nat \<lceil>q\<rceil>" by linarith
    from altq assms(2) have "(of_nat a :: rat) < 2 ^ 53" by simp
    then have "a < 2 ^ 53" by simp
    then have inc: "increment a = Suc a" by (simp add: increment_def)
    have d: "d = nat (\<lfloor>q\<rfloor> + 1 - int (Suc a))" using Suc.hyps(2) by simp
    have m2: "maxRetries (self ?s2) = Fin q" using Suc.prems by simp
    from Suc.hyps(1)[OF d m2, of le'] obtain r s' es where
      run: "fetchWithRetry_loop ?s2 u init (Suc a) le' = Some (r, s')"
      and ev: "events s' = events ?s2 @ es"
      and c1: "length (filter is_Fetch es) \<le> nat (\<lfloor>q\<rfloor> + 1) - Suc a"
      and c2: "length (filter (\<lambda>e. \<not> is_Fetch e) es) \<le> nat \<lceil>q\<rceil> - Suc a"
      by blast
    have "events s' = events s @ (Fetch ?req # Sleep dl # es)" using ev by simp
    moreover have "length (filter is_Fetch (Fetch ?req # Sleep dl # es)) \<le> nat (\<lfloor>q\<rfloor> + 1) - a"
      using c1 fpos by simp
    moreover have "length (filter (\<lambda>e. \<not> is_Fetch e) (Fetch ?req # Sleep dl # es)) \<le> nat \<lceil>q\<rceil> - a"
      using c2 spos by simp
    ultimately show ?thesis using run inc by metis
  qed
  show ?case
  proof (cases "net s (fetches s) ?req")
    case (Rejected msg)
    show ?thesis
    proof (cases "js_less (counter a) (maxRetries (self s))")
      case True
      show ?thesis
        unfolding loop_rejected_retry[OF True Rejected, of le] by (rule cont[OF True])
    next
      case False
      show ?thesis
        unfolding loop_rejected_final[OF le False Rejected, of le] by (rule stop)
    qed
  next
    case (Resolved resp)
    show ?thesis
    proof (cases "ok resp")
      case True
      show ?thesis unfolding loop_ok[OF le Resolved True, of le] by (rule stop)
    next
      case nok: False
      show ?thesis
      proof (cases "status resp \<notin> RETRIABLE_STATUS_CODES
                    \<or> \<not> js_less (counter a) (maxRetries (self s))")
        case True
        show ?thesis unfolding loop_terminal[OF le Resolved nok True, of le] by (rule stop)
      next
        case False
        then have lt: "js_less (counter a) (maxRetries (self s))"
          and rt: "status resp \<in> RETRIABLE_STATUS_CODES" by auto
        show ?thesis
          unfolding loop_response_retry[OF lt Resolved nok rt, of le] by (rule cont[OF lt])
      qed
    qed
  qed
qed

lemma loop_ends:
  assumes "\<not> js_le (counter (2 ^ 53)) (maxRetries (self s))"
  shows "\<exists>r s' es. fetchWithRetry_loop s u init a le = Some (r, s')
           \<and> events s' = events s @ es
           \<and> length (filter is_Fetch es) \<le> attempts_allowed (maxRetries (self s)) - a
           \<and> length (filter (\<lambda>e. \<not> is_Fetch e) es) \<le> sleeps_allowed (maxRetries (self s)) - a"
proof (cases "maxRetries (self s)")
  case (Fin q)
  with assms have "q < 2 ^ 53" by (simp add: counter_def)
  from loop_ends_Fin[OF Fin this, of u init a le] Fin show ?thesis
    by (simp add: attempts_allowed_def sleeps_allowed_def)
next
  case PosInf
  with assms show ?thesis by (simp add: counter_def)
next
  case NegInf
  then have "\<not> js_le (counter a) (maxRetries (self s))" by (simp add: counter_def)
  from loop_exhausted[OF this] show ?thesis by simp
next
  case NaN
  then have "\<not> js_le (counter a) (maxRetries (self s))" by (simp add: counter_def)
  from loop_exhausted[OF this] show ?thesis by simp
qed

lemma allowed_whole:
  "attempts_allowed (counter n) = Suc n" "sleeps_allowed (counter n) = n"
  by (simp_all add: attempts_allowed_def sleeps_allowed_def counter_def)

lemma attempts_text:
  assumes "n < 2 ^ 53"
  shows "number_to_string (js_plus (counter n) (Fin 1)) = int_to_string (int n + 1)"
proof -
  from assms have b: "(of_nat n :: rat) + 1 \<le> 2 ^ 53"
  proof -
    from assms have "Suc n \<le> 2 ^ 53" by simp
    then have "(of_nat (Suc n) :: rat) \<le> of_nat (2 ^ 53)" by (simp only: of_nat_le_iff)
    then show ?thesis by simp
  qed
  have "(2::rat) ^ 53 < 2 ^ 54" by simp
  with b double_limit_54 have lim: "(of_nat n :: rat) + 1 < double_limit" by linarith
  have nn: "(0::rat) \<le> of_nat n + 1" by simp
  from double_limit_54 have "(0::rat) < double_limit" by (simp add: double_limit_def)
  with nn have "\<not> (of_nat n :: rat) + 1 \<le> - double_limit" by linarith
  with lim have o: "overflow (of_nat n + 1) = Fin (of_nat n + 1)" by (simp add: overflow_def)
  have fl: "\<lfloor>(of_nat n :: rat) + 1\<rfloor> = int n + 1" by simp
  have whole: "(of_nat n :: rat) + 1 = of_int \<lfloor>(of_nat n :: rat) + 1\<rfloor>" by (simp only: fl)
  have ab: "\<bar>(of_nat n :: rat) + 1\<bar> \<le> 2 ^ 53" using b nn by simp
  show ?thesis
    unfolding counter_def js_plus.simps o number_to_string.simps
    using whole ab fl by simp
qed

text \<open>
  With \<open>maxRetries\<close> above \<open>2^53\<close>, which the counter never passes, a run in which
  every \<open>fetch\<close> rejects or gets a response with a retriable status never ends.
\<close>

lemma loop_never_ends:
  assumes "js_less (counter (2 ^ 53)) (maxRetries (self s))" and "a \<le> 2 ^ 53"
    and "\<forall>k req. case net s k req of
                   Rejected m \<Rightarrow> True
                 | Resolved resp \<Rightarrow> \<not> ok resp \<and> status resp \<in> RETRIABLE_STATUS_CODES"
  shows "fetchWithRetry_loop s u init a le = None"
proof (rule ccontr)
  assume "fetchWithRetry_loop s u init a le \<noteq> None"
  then obtain y where y: "fetchWithRetry_loop s u init a le = Some y" by auto
  let ?P = "\<lambda>(s::state) (u::string) (init::RequestInit) (a::nat) (le::error option)
      (y::(error + response) \<times> state).
      \<not> (js_less (counter (2 ^ 53)) (maxRetries (self s)) \<and> a \<le> 2 ^ 53
         \<and> (\<forall>k req. case net s k req of
                   Rejected m \<Rightarrow> True
                 | Resolved resp \<Rightarrow> \<not> ok resp \<and> status resp \<in> RETRIABLE_STATUS_CODES))"
  have "?P s u init a le y"
  proof (rule fetchWithRetry_loop.raw_induct[where P = ?P, OF _ y])
    fix f and s :: state and u :: string and init :: RequestInit and a :: nat
      and le :: "error option" and y :: "(error + response) \<times> state"
    assume IH: "\<And>s u init a le y. f s u init a le = Some y \<Longrightarrow> ?P s u init a le y"
    assume body: "(if js_le (counter a) (maxRetries (self s)) then
        (case fetch s (build_request (self s) u init) of
           (Rejected msg, s1) \<Rightarrow>
             if js_less (counter a) (maxRetries (self s1)) then
               f (sleep s1 (backoffDelay a)) u init (increment a) (Some (Error msg))
             else
               Some (Inl (LangblyError
                       (JStr (''Request failed after ''
                              @ number_to_string (js_plus (maxRetries (self s1)) (Fin 1))
                              @ '' attempts: '' @ msg))
                       0 (JStr ''CONNECTION_ERROR'')), s1)
         | (Resolved resp, s1) \<Rightarrow>
             if ok resp then Some (Inr resp, s1)
             else if status resp \<notin> RETRIABLE_STATUS_CODES then
               Some (Inl (throwForStatus resp), s1)
             else if js_less (counter a) (maxRetries (self s1)) then
               f (sleep s1 (getRetryDelay resp a)) u init (increment a) le
             else Some (Inl (throwForStatus resp), s1))
      else
        Some (Inl (case le of
                Some e \<Rightarrow> e
              | None \<Rightarrow> LangblyError (JStr ''Request failed'') 0 (JStr [])), s)) = Some y"
    show "?P s u init a le y"
    proof
      assume inv: "js_less (counter (2 ^ 53)) (maxRetries (self s)) \<and> a \<le> 2 ^ 53
         \<and> (\<forall>k req. case net s k req of
                   Rejected m \<Rightarrow> True
                 | Resolved resp \<Rightarrow> \<not> ok resp \<and> status resp \<in> RETRIABLE_STATUS_CODES)"
      then have "(of_nat a :: rat) \<le> of_nat (2 ^ 53)" by (simp only: of_nat_le_iff)
      with inv have lt: "js_less (counter a) (maxRetries (self s))"
        by (cases "maxRetries (self s)") (simp_all add: counter_def)
      have inc: "increment a \<le> 2 ^ 53" using inv by (simp add: increment_def)
      let ?req = "build_request (self s) u init"
      from inv have nt: "case net s (fetches s) ?req of
                   Rejected m \<Rightarrow> True
                 | Resolved resp \<Rightarrow> \<not> ok resp \<and> status resp \<in> RETRIABLE_STATUS_CODES"
        by blast
      show False
      proof (cases "net s (fetches s) ?req")
        case (Rejected m)
        let ?s2 = "sleep (snd (fetch s ?req)) (backoffDelay a)"
        from body lt js_less_le[OF lt] Rejected
        have "f ?s2 u init (increment a) (Some (Error m)) = Some y"
          by (simp add: fetch_def)
        from IH[OF this] inv inc show False by (simp add: fetch_def sleep_def)
      next
        case (Resolved resp)
        let ?s2 = "sleep (snd (fetch s ?req)) (getRetryDelay resp a)"
        from nt Resolved have r: "\<not> ok resp" "status resp \<in> RETRIABLE_STATUS_CODES"
          by simp_all
        from body lt js_less_le[OF lt] Resolved r
        have "f ?s2 u init (increment a) le = Some y"
          by (simp add: fetch_def)
        from IH[OF this] inv inc show False by (simp add: fetch_def sleep_def)
      qed
    qed
  qed
  with assms show False by simp
qed

lemma whole_below:
  assumes "n < 2 ^ 53"
  shows "\<not> js_le (counter (2 ^ 53)) (counter n)"
proof -
  from assms have "(of_nat n :: rat) < of_nat (2 ^ 53)" by (simp only: of_nat_less_iff)
  then show ?thesis by (simp add: counter_def)
qed

lemma whole_next:
  assumes "js_less (counter a) (counter n)" and "n < 2 ^ 53"
  shows "increment a = Suc a \<and> js_le (counter (increment a)) (counter n)"
proof -
  from assms(1) have "a < n" by (simp add: counter_def)
  with assms(2) show ?thesis by (simp add: increment_def counter_def)
qed

text \<open>After a sleep the loop goes on at the next value of the counter.\<close>

lemma loop_resumed:
  fixes s :: state and u :: string and init :: RequestInit
  defines "req \<equiv> build_request (self s) u init"
  assumes "fetchWithRetry_loop (s\<lparr>events := events s @ [Fetch req, Sleep d]\<rparr>) u init a' le'
             = Some (r, s')"
  shows "\<exists>es. events s' = events s @ [Fetch req, Sleep d] @ es
           \<and> (js_le (counter a') (maxRetries (self s)) \<longrightarrow> (\<exists>es'. es = Fetch req # es'))"
  using loop_returned[OF assms(2)] by (auto simp: req_def)

lemma loop_resumed_whole:
  fixes s :: state and u :: string and init :: RequestInit
  defines "req \<equiv> build_request (self s) u init"
  assumes "maxRetries (self s) = counter n" and "n < 2 ^ 53"
    and "js_less (counter a) (maxRetries (self s))"
  shows "\<exists>r s' es. fetchWithRetry_loop (s\<lparr>events := events s @ [Fetch req, Sleep d]\<rparr>)
                       u init (increment a) le' = Some (r, s')
           \<and> events s' = events s @ [Fetch req, Sleep d, Fetch req] @ es"
proof -
  let ?s2 = "s\<lparr>events := events s @ [Fetch req, Sleep d]\<rparr>"
  have "\<not> js_le (counter (2 ^ 53)) (maxRetries (self ?s2))"
    using whole_below[OF assms(3)] assms(2) by simp
  from loop_ends[OF this, of u init "increment a" le'] obtain r s' where
    run: "fetchWithRetry_loop ?s2 u init (increment a) le' = Some (r, s')" by blast
  have "js_le (counter (increment a)) (counter n)"
    using whole_next[OF assms(4)[unfolded assms(2)] assms(3)] by (rule conjunct2)
  then have "js_le (counter (increment a)) (maxRetries (self s))"
    by (simp only: assms(2))
  with loop_resumed[OF run[unfolded req_def]] obtain es' where
    "events s' = events s @ [Fetch req, Sleep d, Fetch req] @ es'"
    by (auto simp: req_def)
  with run show ?thesis by blast
qed

lemma all_503_run:
  "fetchWithRetry (example_state (\<lambda>k req. Resolved (plain_response 503 ''Service Unavailable'')))
     ''u'' get_init
   = Some (Inl (LangblyError (JStr ''Service Unavailable'') 503 (JStr [])),
      \<lparr>self = example_client,
       net = \<lambda>k req. Resolved (plain_response 503 ''Service Unavailable''),
       events = [Fetch (build_request example_client ''u'' get_init), Sleep (Fin 500),
                 Fetch (build_request example_client ''u'' get_init), Sleep (Fin 1000),
                 Fetch (build_request example_client ''u'' get_init)]\<rparr>)"
proof -
  let ?r = "plain_response 503 ''Service Unavailable''"
  let ?s = "example_state (\<lambda>k req. Resolved ?r)"
  let ?req = "build_request example_client ''u'' get_init"
  let ?s1 = "?s\<lparr>events := [Fetch ?req, Sleep (Fin 500)]\<rparr>"
  let ?s2 = "?s\<lparr>events := [Fetch ?req, Sleep (Fin 500), Fetch ?req, Sleep (Fin 1000)]\<rparr>"
  have r: "\<not> ok ?r" "status ?r \<in> RETRIABLE_STATUS_CODES"
    by (simp_all add: plain_response_def ok_def RETRIABLE_STATUS_CODES_def)
  have d: "getRetryDelay ?r 0 = Fin 500" "getRetryDelay ?r (Suc 0) = Fin 1000"
    using getRetryDelay_fallback[of ?r] by (simp_all add: plain_response_def)
  have i: "increment 0 = Suc 0" "increment (Suc 0) = Suc (Suc 0)"
    by (simp_all add: increment_def)
  have a0: "js_less (counter 0) (maxRetries (self ?s))"
    "net ?s (fetches ?s) (build_request (self ?s) ''u'' get_init) = Resolved ?r"
    by (simp_all add: example_state_def example_client_def counter_def)
  have a1: "js_less (counter (Suc 0)) (maxRetries (self ?s1))"
    "net ?s1 (fetches ?s1) (build_request (self ?s1) ''u'' get_init) = Resolved ?r"
    by (simp_all add: example_state_def example_client_def counter_def)
  have a2: "js_le (counter (Suc (Suc 0))) (maxRetries (self ?s2))"
    "net ?s2 (fetches ?s2) (build_request (self ?s2) ''u'' get_init) = Resolved ?r"
    by (simp_all add: example_state_def example_client_def counter_def)
  have n2: "\<not> js_less (counter (Suc (Suc 0))) (maxRetries (self ?s2))"
    by (simp add: example_state_def example_client_def counter_def)
  have e0: "fetchWithRetry_loop ?s ''u'' get_init 0 None = fetchWithRetry_loop ?s1 ''u'' get_init (Suc 0) None"
    using loop_response_retry[OF a0 r, of None] d i
    by (simp add: example_state_def example_client_def)
  have e1: "fetchWithRetry_loop ?s1 ''u'' get_init (Suc 0) None = fetchWithRetry_loop ?s2 ''u'' get_init (Suc (Suc 0)) None"
    using loop_response_retry[OF a1 r, of None] d i
    by (simp add: example_state_def example_client_def)
  have e2: "fetchWithRetry_loop ?s2 ''u'' get_init (Suc (Suc 0)) None =
              Some (Inl (throwForStatus ?r), ?s2\<lparr>events := events ?s2 @ [Fetch ?req]\<rparr>)"
    using loop_terminal[OF a2 r(1), of None] n2
    by (simp add: example_state_def example_client_def)
  show ?thesis
    unfolding fetchWithRetry_def e0 e1 e2
    by (simp add: example_state_def throwForStatus_def plain_response_def)
qed

text \<open>
  Claim C1, as the code has it. On a client whose \<open>maxRetries\<close> is below \<open>2^53\<close> (any
  finite number below it, \<open>-Infinity\<close> or NaN) a call of \<open>fetchWithRetry\<close> always ends,
  with a response that is \<open>ok\<close> or with an error. The events it adds hold at most as
  many calls of \<open>fetch\<close> as there are counter values that pass \<open>attempt <= maxRetries\<close>,
  and at most as many sleeps as there are counter values that pass
  \<open>attempt < maxRetries\<close>: \<open>n + 1\<close> fetches and \<open>n\<close> sleeps for a whole number \<open>n\<close>, never
  more than \<open>maxRetries + 1\<close> fetches for a fraction, and no fetch at all for a negative
  number, \<open>-Infinity\<close> or NaN. A client constructed without \<open>maxRetries\<close> has
  \<open>maxRetries = 2\<close>.
\<close>

theorem fetchWithRetry_bounded:
  "(\<not> js_le (counter (2 ^ 53)) (maxRetries (self s)) \<longrightarrow>
      (\<exists>r s' es. fetchWithRetry s u init = Some (r, s')
          \<and> events s' = events s @ es
          \<and> length (filter is_Fetch es) \<le> attempts_allowed (maxRetries (self s))
          \<and> length (filter (\<lambda>e. \<not> is_Fetch e) es) \<le> sleeps_allowed (maxRetries (self s))
          \<and> (\<forall>resp. r = Inr resp \<longrightarrow> ok resp)))
   \<and> attempts_allowed (counter n) = n + 1 \<and> sleeps_allowed (counter n) = n
   \<and> (- 1 \<le> q \<longrightarrow> of_nat (attempts_allowed (Fin q)) \<le> q + 1)
   \<and> (q < 0 \<longrightarrow> attempts_allowed (Fin q) = 0)
   \<and> attempts_allowed NaN = 0 \<and> attempts_allowed NegInf = 0
   \<and> (LangblyOptions.maxRetries options = None \<and> new_Langbly options = Inr c
       \<longrightarrow> maxRetries c = Fin 2)"
proof -
  have run: "\<exists>r s' es. fetchWithRetry s u init = Some (r, s')
          \<and> events s' = events s @ es
          \<and> length (filter is_Fetch es) \<le> attempts_allowed (maxRetries (self s))
          \<and> length (filter (\<lambda>e. \<not> is_Fetch e) es) \<le> sleeps_allowed (maxRetries (self s))
          \<and> (\<forall>resp. r = Inr resp \<longrightarrow> ok resp)"
    if b: "\<not> js_le (counter (2 ^ 53)) (maxRetries (self s))"
  proof -
    from loop_ends[OF b, of u init 0 None] obtain r s' es where
      e: "fetchWithRetry_loop s u init 0 None = Some (r, s')"
        "events s' = events s @ es"
        "length (filter is_Fetch es) \<le> attempts_allowed (maxRetries (self s))"
        "length (filter (\<lambda>e. \<not> is_Fetch e) es) \<le> sleeps_allowed (maxRetries (self s))"
      by auto
    from loop_returned[OF e(1)] have "\<forall>resp. r = Inr resp \<longrightarrow> ok resp" by simp
    with e show ?thesis unfolding fetchWithRetry_def by blast
  qed
  have fr: "of_nat (attempts_allowed (Fin q)) \<le> q + 1" if "- 1 \<le> q"
  proof -
    from that have "(- 1 :: int) \<le> \<lfloor>q\<rfloor>" by (simp add: le_floor_iff)
    then have "0 \<le> \<lfloor>q\<rfloor> + 1" by linarith
    then have "(of_nat (nat (\<lfloor>q\<rfloor> + 1)) :: rat) = of_int (\<lfloor>q\<rfloor> + 1)" by simp
    also have "\<dots> \<le> q + 1" by simp
    finally show ?thesis by (simp add: attempts_allowed_def)
  qed
  have neg: "attempts_allowed (Fin q) = 0" if "q < 0"
  proof -
    from that have "\<lfloor>q\<rfloor> < 0" by (simp add: floor_less_iff)
    then have "\<lfloor>q\<rfloor> + 1 \<le> 0" by linarith
    then have "nat (\<lfloor>q\<rfloor> + 1) = 0" by (simp only: nat_le_0)
    then show ?thesis by (simp only: attempts_allowed_def jsnum.case)
  qed
  have dflt: "maxRetries c = Fin 2"
    if "LangblyOptions.maxRetries options = None" "new_Langbly options = Inr c"
    using that by (auto simp: new_Langbly_def split: option.splits if_splits)
  have w: "attempts_allowed (counter n) = n + 1 \<and> sleeps_allowed (counter n) = n"
    by (simp add: allowed_whole)
  have nn: "attempts_allowed NaN = 0 \<and> attempts_allowed NegInf = 0"
    by (simp add: attempts_allowed_def)
  from run fr neg dflt w nn show ?thesis by blast
qed

theorem fetchWithRetry_bounded_witness:
  "fetchWithRetry (example_state (\<lambda>k req. Resolved (plain_response 503 ''Service Unavailable'')))
     ''u'' get_init
   = Some (Inl (LangblyError (JStr ''Service Unavailable'') 503 (JStr [])),
      \<lparr>self = example_client,
       net = \<lambda>k req. Resolved (plain_response 503 ''Service Unavailable''),
       events = [Fetch (build_request example_client ''u'' get_init), Sleep (Fin 500),
                 Fetch (build_request example_client ''u'' get_init), Sleep (Fin 1000),
                 Fetch (build_request example_client ''u'' get_init)]\<rparr>)
   \<and> attempts_allowed (maxRetries example_client) = 3
   \<and> new_Langbly \<lparr>LangblyOptions.apiKey = Some ''key'', LangblyOptions.baseUrl = None,
                  LangblyOptions.timeout = None, LangblyOptions.maxRetries = None\<rparr>
       = Inr example_client"
proof -
  let ?s = "example_state (\<lambda>k req. Resolved (plain_response 503 ''Service Unavailable''))"
  let ?o = "\<lparr>LangblyOptions.apiKey = Some ''key'', LangblyOptions.baseUrl = None,
             LangblyOptions.timeout = None, LangblyOptions.maxRetries = None\<rparr>"
  have b: "\<not> js_le (counter (2 ^ 53)) (maxRetries (self ?s))"
    by (simp add: example_state_def example_client_def counter_def)
  have c: "LangblyOptions.maxRetries ?o = None \<and> new_Langbly ?o = Inr example_client"
    by (simp add: new_Langbly_def example_client_def strip_trailing_slash_def)
  note T = fetchWithRetry_bounded[of ?s "''u''" get_init 2 1 ?o example_client]
  from T[THEN conjunct1, rule_format, OF b] have "\<exists>y. fetchWithRetry ?s ''u'' get_init = Some y"
    by blast
  moreover from T have "attempts_allowed (counter 2) = 3" by simp
  moreover from T c have "maxRetries example_client = Fin 2" by blast
  ultimately show ?thesis
    using c all_503_run by (simp add: counter_def)
qed

text \<open>
  The constructor stores \<open>maxRetries\<close> unchecked. With \<open>maxRetries = Infinity\<close>, and
  with \<open>maxRetries = 2^53 + 2\<close> (where the counter stops growing at \<open>2^53\<close>), a call on
  a server that answers 503 to every request never ends.
\<close>

theorem fetchWithRetry_forever_counterexample:
  "fetchWithRetry (state_with PosInf unavailable_net) ''u'' get_init = None
   \<and> fetchWithRetry (state_with (Fin (2 ^ 53 + 2)) unavailable_net) ''u'' get_init = None"
proof -
  have z: "(0::nat) \<le> 2 ^ 53" by simp
  have a: "js_less (counter (2 ^ 53)) (maxRetries (self (state_with PosInf unavailable_net)))"
    by (simp add: state_with_def counter_def)
  have b: "js_less (counter (2 ^ 53))
             (maxRetries (self (state_with (Fin (2 ^ 53 + 2)) unavailable_net)))"
    by (simp add: state_with_def counter_def)
  have n: "\<forall>k req. case net (state_with m unavailable_net) k req of
                   Rejected m \<Rightarrow> True
                 | Resolved resp \<Rightarrow> \<not> ok resp \<and> status resp \<in> RETRIABLE_STATUS_CODES" for m
    by (simp add: state_with_def unavailable_net_def plain_response_def ok_def
                  RETRIABLE_STATUS_CODES_def)
  show ?thesis
    unfolding fetchWithRetry_def
    using loop_never_ends[OF a z n] loop_never_ends[OF b z n] by simp
qed

text \<open>What follows a sleep, for a run that ends and for a whole \<open>maxRetries\<close>.\<close>

lemma after_sleep:
  fixes s :: state and u :: string and init :: RequestInit
  defines "req \<equiv> build_request (self s) u init"
  assumes lt: "js_less (counter a) (maxRetries (self s))"
    and step: "fetchWithRetry_loop s u init a le =
                 fetchWithRetry_loop (s\<lparr>events := events s @ [Fetch req, Sleep d]\<rparr>)
                   u init (increment a) le'"
  shows "(\<forall>r s'. fetchWithRetry_loop s u init a le = Some (r, s') \<longrightarrow>
            (\<exists>es. events s' = events s @ [Fetch req, Sleep d] @ es
                 \<and> (js_le (counter (increment a)) (maxRetries (self s)) \<longrightarrow>
                      (\<exists>es'. es = Fetch req # es'))))
       \<and> (maxRetries (self s) = counter n \<and> n < 2 ^ 53 \<longrightarrow>
            (\<exists>r s' es. fetchWithRetry_loop s u init a le = Some (r, s')
                 \<and> events s' = events s @ [Fetch req, Sleep d, Fetch req] @ es))"
proof -
  have a: "\<exists>es. events s' = events s @ [Fetch req, Sleep d] @ es
                 \<and> (js_le (counter (increment a)) (maxRetries (self s)) \<longrightarrow>
                      (\<exists>es'. es = Fetch req # es'))"
    if "fetchWithRetry_loop s u init a le = Some (r, s')" for r s'
    using loop_resumed[OF that[unfolded step req_def]] by (simp add: req_def)
  have b: "\<exists>r s' es. fetchWithRetry_loop s u init a le = Some (r, s')
                 \<and> events s' = events s @ [Fetch req, Sleep d, Fetch req] @ es"
    if "maxRetries (self s) = counter n" "n < 2 ^ 53"
    unfolding step req_def
    by (rule loop_resumed_whole[OF that lt])
  from a b show ?thesis by blast
qed

text \<open>
  Claim C2. When an attempt gets a response that is not \<open>ok\<close>: a status outside
  429, 500, 502, 503, 504 ends the call at once with the error of \<open>throwForStatus\<close>,
  the \<open>fetch\<close> of this attempt being the last event; a status in that set is followed,
  while attempts remain (\<open>attempt < maxRetries\<close>), by a sleep and the next turn of the
  loop, which calls \<open>fetch\<close> again whenever the loop test lets it in, as it always does
  for a whole number \<open>maxRetries\<close> below \<open>2^53\<close>, where the call also ends; and on the
  final attempt by the error of \<open>throwForStatus\<close>. Where \<open>maxRetries\<close> is a fraction, the
  final attempt still passes \<open>attempt < maxRetries\<close>: it is followed by a sleep and
  then, the loop test failing, by the error thrown after the loop.
\<close>

theorem retriable_or_terminal_status:
  assumes "js_le (counter a) (maxRetries (self s))"
    and "net s (fetches s) (build_request (self s) u init) = Resolved resp"
    and "\<not> ok resp"
  shows "(status resp \<notin> {429, 500, 502, 503, 504} \<longrightarrow>
            fetchWithRetry_loop s u init a le =
              Some (Inl (throwForStatus resp),
                    s\<lparr>events := events s @ [Fetch (build_request (self s) u init)]\<rparr>))
       \<and> (status resp \<in> {429, 500, 502, 503, 504}
          \<and> js_less (counter a) (maxRetries (self s)) \<longrightarrow>
            fetchWithRetry_loop s u init a le =
              fetchWithRetry_loop
                (s\<lparr>events := events s @ [Fetch (build_request (self s) u init),
                                          Sleep (getRetryDelay resp a)]\<rparr>)
                u init (increment a) le
            \<and> (\<forall>r s'. fetchWithRetry_loop s u init a le = Some (r, s') \<longrightarrow>
                 (\<exists>es. events s' = events s @ [Fetch (build_request (self s) u init),
                                               Sleep (getRetryDelay resp a)] @ es
                      \<and> (js_le (counter (increment a)) (maxRetries (self s)) \<longrightarrow>
                           (\<exists>es'. es = Fetch (build_request (self s) u init) # es'))))
            \<and> (maxRetries (self s) = counter n \<and> n < 2 ^ 53 \<longrightarrow>
                 (\<exists>r s' es. fetchWithRetry_loop s u init a le = Some (r, s')
                      \<and> events s' = events s @ [Fetch (build_request (self s) u init),
                                                 Sleep (getRetryDelay resp a),
                                                 Fetch (build_request (self s) u init)] @ es)))
       \<and> (status resp \<in> {429, 500, 502, 503, 504}
          \<and> \<not> js_less (counter a) (maxRetries (self s)) \<longrightarrow>
            fetchWithRetry_loop s u init a le =
              Some (Inl (throwForStatus resp),
                    s\<lparr>events := events s @ [Fetch (build_request (self s) u init)]\<rparr>))
       \<and> (status resp \<in> {429, 500, 502, 503, 504}
          \<and> js_less (counter a) (maxRetries (self s))
          \<and> \<not> js_le (counter (increment a)) (maxRetries (self s)) \<longrightarrow>
            fetchWithRetry_loop s u init a le =
              Some (Inl (case le of
                      Some e \<Rightarrow> e
                    | None \<Rightarrow> LangblyError (JStr ''Request failed'') 0 (JStr [])),
                    s\<lparr>events := events s @ [Fetch (build_request (self s) u init),
                                              Sleep (getRetryDelay resp a)]\<rparr>))"
proof -
  let ?req = "build_request (self s) u init"
  have t: "status resp \<notin> {429, 500, 502, 503, 504} \<or> \<not> js_less (counter a) (maxRetries (self s)) \<Longrightarrow>
           fetchWithRetry_loop s u init a le =
             Some (Inl (throwForStatus resp), s\<lparr>events := events s @ [Fetch ?req]\<rparr>)"
    using loop_terminal[OF assms, of le] by (simp add: RETRIABLE_STATUS_CODES_def)
  have r: "fetchWithRetry_loop s u init a le =
              fetchWithRetry_loop
                (s\<lparr>events := events s @ [Fetch ?req, Sleep (getRetryDelay resp a)]\<rparr>)
                u init (increment a) le
            \<and> (\<forall>r s'. fetchWithRetry_loop s u init a le = Some (r, s') \<longrightarrow>
                 (\<exists>es. events s' = events s @ [Fetch ?req, Sleep (getRetryDelay resp a)] @ es
                      \<and> (js_le (counter (increment a)) (maxRetries (self s)) \<longrightarrow>
                           (\<exists>es'. es = Fetch ?req # es'))))
            \<and> (maxRetries (self s) = counter n \<and> n < 2 ^ 53 \<longrightarrow>
                 (\<exists>r s' es. fetchWithRetry_loop s u init a le = Some (r, s')
                      \<and> events s' = events s @ [Fetch ?req, Sleep (getRetryDelay resp a),
                                                 Fetch ?req] @ es))"
    if st: "status resp \<in> {429, 500, 502, 503, 504}"
      and lt: "js_less (counter a) (maxRetries (self s))"
  proof -
    have step: "fetchWithRetry_loop s u init a le =
              fetchWithRetry_loop
                (s\<lparr>events := events s @ [Fetch ?req, Sleep (getRetryDelay resp a)]\<rparr>)
                u init (increment a) le"
      using loop_response_retry[OF lt assms(2,3), of le] st
      by (simp add: RETRIABLE_STATUS_CODES_def)
    from after_sleep[OF lt step, of n] step show ?thesis by blast
  qed
  have x: "fetchWithRetry_loop s u init a le =
              Some (Inl (case le of
                      Some e \<Rightarrow> e
                    | None \<Rightarrow> LangblyError (JStr ''Request failed'') 0 (JStr [])),
                    s\<lparr>events := events s @ [Fetch ?req, Sleep (getRetryDelay resp a)]\<rparr>)"
    if st: "status resp \<in> {429, 500, 502, 503, 504}"
      and lt: "js_less (counter a) (maxRetries (self s))"
      and out: "\<not> js_le (counter (increment a)) (maxRetries (self s))"
  proof -
    let ?s2 = "s\<lparr>events := events s @ [Fetch ?req, Sleep (getRetryDelay resp a)]\<rparr>"
    have step: "fetchWithRetry_loop s u init a le = fetchWithRetry_loop ?s2 u init (increment a) le"
      using loop_response_retry[OF lt assms(2,3), of le] st
      by (simp add: RETRIABLE_STATUS_CODES_def)
    from out have "\<not> js_le (counter (increment a)) (maxRetries (self ?s2))" by simp
    from loop_exhausted[OF this, of u init le] step show ?thesis by simp
  qed
  from t r x show ?thesis by blast
qed

theorem retriable_or_terminal_status_witness:
  "(\<exists>r s' es. fetchWithRetry_loop
             (example_state (\<lambda>k req. Resolved (plain_response 503 ''Service Unavailable'')))
             ''u'' get_init 0 None = Some (r, s')
        \<and> events s' =
          [Fetch (build_request example_client ''u'' get_init), Sleep (Fin 500),
           Fetch (build_request example_client ''u'' get_init)] @ es)
   \<and> fetchWithRetry_loop
         (example_state (\<lambda>k req. Resolved (plain_response 503 ''Service Unavailable'')))
         ''u'' get_init 2 None
       = Some (Inl (LangblyError (JStr ''Service Unavailable'') 503 (JStr [])),
          \<lparr>self = example_client,
           net = \<lambda>k req. Resolved (plain_response 503 ''Service Unavailable''),
           events = [Fetch (build_request example_client ''u'' get_init)]\<rparr>)
   \<and> fetchWithRetry_loop
         (example_state (\<lambda>k req. Resolved (plain_response 404 ''Not Found'')))
         ''u'' get_init 0 None
       = Some (Inl (LangblyError (JStr ''Not Found'') 404 (JStr [])),
          \<lparr>self = example_client,
           net = \<lambda>k req. Resolved (plain_response 404 ''Not Found''),
           events = [Fetch (build_request example_client ''u'' get_init)]\<rparr>)
   \<and> fetchWithRetry_loop (state_with (Fin (3 / 2)) unavailable_net) ''u'' get_init 1 None
       = Some (Inl (LangblyError (JStr ''Request failed'') 0 (JStr [])),
          \<lparr>self = example_client\<lparr>maxRetries := Fin (3 / 2)\<rparr>, net = unavailable_net,
           events = [Fetch (build_request (example_client\<lparr>maxRetries := Fin (3 / 2)\<rparr>)
                              ''u'' get_init),
                     Sleep (Fin 1000)]\<rparr>)"
proof -
  let ?r = "plain_response 503 ''Service Unavailable''"
  let ?q = "plain_response 404 ''Not Found''"
  let ?sA = "example_state (\<lambda>k req. Resolved ?r)"
  let ?sB = "example_state (\<lambda>k req. Resolved ?q)"
  have a0: "js_le (counter 0) (maxRetries (self ?sA))"
    and a2: "js_le (counter 2) (maxRetries (self ?sA))"
    and an: "net ?sA (fetches ?sA) (build_request (self ?sA) ''u'' get_init) = Resolved ?r"
    and ar: "\<not> ok ?r"
    by (simp_all add: example_defs ok_def counter_def)
  have b0: "js_le (counter 0) (maxRetries (self ?sB))"
    and bn: "net ?sB (fetches ?sB) (build_request (self ?sB) ''u'' get_init) = Resolved ?q"
    and br: "\<not> ok ?q"
    by (simp_all add: example_defs ok_def counter_def)
  have d: "getRetryDelay ?r 0 = Fin 500"
    using getRetryDelay_fallback[of ?r 0] by (simp add: plain_response_def)
  have w: "status ?r \<in> {429, 500, 502, 503, 504} \<and> js_less (counter 0) (maxRetries (self ?sA))"
    "maxRetries (self ?sA) = counter 2 \<and> (2::nat) < 2 ^ 53"
    by (simp_all add: example_defs counter_def)
  have f: "status ?r \<in> {429, 500, 502, 503, 504} \<and> \<not> js_less (counter 2) (maxRetries (self ?sA))"
    by (simp add: example_defs counter_def)
  have t: "status ?q \<notin> {429, 500, 502, 503, 504}"
    by (simp add: plain_response_def)
  from retriable_or_terminal_status[OF a0 an ar, of None 2, THEN conjunct2, THEN conjunct1,
         rule_format, OF w(1), THEN conjunct2, THEN conjunct2, rule_format, OF w(2)]
  have "\<exists>r s' es. fetchWithRetry_loop ?sA ''u'' get_init 0 None = Some (r, s')
        \<and> events s' =
          [Fetch (build_request example_client ''u'' get_init), Sleep (Fin 500),
           Fetch (build_request example_client ''u'' get_init)] @ es"
    by (simp add: d example_state_def)
  moreover from retriable_or_terminal_status[OF a2 an ar, of None 2, THEN conjunct2, THEN conjunct2,
         THEN conjunct1, rule_format, OF f]
  have "fetchWithRetry_loop ?sA ''u'' get_init 2 None
       = Some (Inl (LangblyError (JStr ''Service Unavailable'') 503 (JStr [])),
          \<lparr>self = example_client, net = \<lambda>k req. Resolved ?r,
           events = [Fetch (build_request example_client ''u'' get_init)]\<rparr>)"
    by (simp add: example_defs throwForStatus_def)
  moreover from retriable_or_terminal_status[OF b0 bn br, of None 2, THEN conjunct1, rule_format, OF t]
  have "fetchWithRetry_loop ?sB ''u'' get_init 0 None
       = Some (Inl (LangblyError (JStr ''Not Found'') 404 (JStr [])),
          \<lparr>self = example_client, net = \<lambda>k req. Resolved ?q,
           events = [Fetch (build_request example_client ''u'' get_init)]\<rparr>)"
    by (simp add: example_defs throwForStatus_def)
  moreover have "fetchWithRetry_loop (state_with (Fin (3 / 2)) unavailable_net) ''u'' get_init 1 None
       = Some (Inl (LangblyError (JStr ''Request failed'') 0 (JStr [])),
          \<lparr>self = example_client\<lparr>maxRetries := Fin (3 / 2)\<rparr>, net = unavailable_net,
           events = [Fetch (build_request (example_client\<lparr>maxRetries := Fin (3 / 2)\<rparr>)
                              ''u'' get_init),
                     Sleep (Fin 1000)]\<rparr>)"
  proof -
    let ?sC = "state_with (Fin (3 / 2)) unavailable_net"
    have c1: "js_le (counter (Suc 0)) (maxRetries (self ?sC))"
      and cn: "net ?sC (fetches ?sC) (build_request (self ?sC) ''u'' get_init) = Resolved ?r"
      by (simp_all add: state_with_def unavailable_net_def counter_def)
    have g: "status ?r \<in> {429, 500, 502, 503, 504}
           \<and> js_less (counter (Suc 0)) (maxRetries (self ?sC))
           \<and> \<not> js_le (counter (increment (Suc 0))) (maxRetries (self ?sC))"
      by (simp add: state_with_def plain_response_def counter_def increment_def)
    have d1: "getRetryDelay ?r (Suc 0) = Fin 1000"
      using getRetryDelay_fallback[of ?r "Suc 0"] by (simp add: plain_response_def)
    from retriable_or_terminal_status[OF c1 cn ar, of None 2, THEN conjunct2, THEN conjunct2,
           THEN conjunct2, rule_format, OF g]
    show ?thesis by (simp add: d1 state_with_def)
  qed
  ultimately show ?thesis by blast
qed

lemma loop_all_rejected:
  assumes "maxRetries (self s) = counter n" and "n < 2 ^ 53" and "a \<le> n"
    and "\<forall>j. a + j \<le> n \<longrightarrow>
             net s (fetches s + j) (build_request (self s) u init) = Rejected (msg (a + j))"
  shows "fetchWithRetry_loop s u init a le =
           Some (Inl (LangblyError
                   (JStr (''Request failed after '' @ int_to_string (int n + 1)
                          @ '' attempts: '' @ msg n))
                   0 (JStr ''CONNECTION_ERROR'')),
            s\<lparr>events := events s
                  @ concat (map (\<lambda>i. [Fetch (build_request (self s) u init), Sleep (backoffDelay i)])
                                [a..<n])
                  @ [Fetch (build_request (self s) u init)]\<rparr>)"
  using assms(1,3,4)
proof (induction "n - a" arbitrary: a s le)
  case 0
  then have eq: "a = n" by simp
  let ?req = "build_request (self s) u init"
  have "a + 0 \<le> n" using eq by simp
  with "0.prems"(3) have "net s (fetches s + 0) ?req = Rejected (msg (a + 0))" by blast
  then have rej: "net s (fetches s) ?req = Rejected (msg n)" using eq by simp
  have le: "js_le (counter a) (maxRetries (self s))"
    and nl: "\<not> js_less (counter a) (maxRetries (self s))"
    using eq "0.prems"(1) by (simp_all add: counter_def)
  show ?case
    unfolding loop_rejected_final[OF le nl rej, of le] "0.prems"(1) attempts_text[OF assms(2)]
    using eq by simp
next
  case (Suc d)
  let ?req = "build_request (self s) u init"
  let ?s2 = "s\<lparr>events := events s @ [Fetch ?req, Sleep (backoffDelay a)]\<rparr>"
  from Suc.hyps(2) have an: "a < n" by linarith
  have lt: "js_less (counter a) (maxRetries (self s))"
    using an Suc.prems(1) by (simp add: counter_def)
  have inc: "increment a = Suc a" using an assms(2) by (simp add: increment_def)
  have "a + 0 \<le> n" using an by simp
  with Suc.prems(3) have "net s (fetches s + 0) ?req = Rejected (msg (a + 0))" by blast
  then have rej: "net s (fetches s) ?req = Rejected (msg a)" by simp
  have step: "fetchWithRetry_loop s u init a le =
                fetchWithRetry_loop ?s2 u init (Suc a) (Some (Error (msg a)))"
    using loop_rejected_retry[OF lt rej, of le] inc by simp
  have d: "d = n - Suc a" using Suc.hyps(2) by simp
  have m2: "maxRetries (self ?s2) = counter n" using Suc.prems(1) by simp
  have le2: "Suc a \<le> n" using an by simp
  have all2: "\<forall>j. Suc a + j \<le> n \<longrightarrow>
                net ?s2 (fetches ?s2 + j) (build_request (self ?s2) u init) = Rejected (msg (Suc a + j))"
  proof (intro allI impI)
    fix j assume "Suc a + j \<le> n"
    then have "a + Suc j \<le> n" by simp
    with Suc.prems(3) have "net s (fetches s + Suc j) ?req = Rejected (msg (a + Suc j))"
      by blast
    then show "net ?s2 (fetches ?s2 + j) (build_request (self ?s2) u init) = Rejected (msg (Suc a + j))"
      by simp
  qed
  have upt: "[a..<n] = a # [Suc a..<n]" using an by (simp add: upt_conv_Cons)
  have "fetchWithRetry_loop s u init a le =
          Some (Inl (LangblyError
                   (JStr (''Request failed after '' @ int_to_string (int n + 1)
                          @ '' attempts: '' @ msg n))
                   0 (JStr ''CONNECTION_ERROR'')),
            ?s2\<lparr>events := events ?s2
                  @ concat (map (\<lambda>i. [Fetch (build_request (self ?s2) u init), Sleep (backoffDelay i)])
                                [Suc a..<n])
                  @ [Fetch (build_request (self ?s2) u init)]\<rparr>)"
    unfolding step by (rule Suc.hyps(1)[OF d m2 le2 all2])
  then show ?case
    by (simp add: upt)
qed

text \<open>
  Claim C9, as the code has it. On a client whose \<open>maxRetries\<close> is a whole number \<open>n\<close>
  below \<open>2^53\<close>, when \<open>fetch\<close> rejects on each of the \<open>n + 1\<close> attempts, the call throws
  a \<open>LangblyError\<close> of status 0 and code \<open>CONNECTION_ERROR\<close> whose message gives that
  number of attempts and the message of the last rejection. At any turn of the loop,
  whatever happened before it, a rejection while \<open>attempt < maxRetries\<close> is followed
  by a sleep of \<open>backoffDelay\<close> and the next turn of the loop, which calls \<open>fetch\<close>
  again whenever the loop test lets it in, as it always does for a whole number
  \<open>maxRetries\<close>. A rejection at a turn with \<open>attempt <= maxRetries\<close> but not
  \<open>attempt < maxRetries\<close>, which is a turn with \<open>attempt = maxRetries\<close>, throws that
  \<open>CONNECTION_ERROR\<close>.
\<close>

theorem network_failures_retried:
  "(maxRetries (self s) = counter n \<and> n < 2 ^ 53
    \<and> (\<forall>k \<le> n. net s (fetches s + k) (build_request (self s) u init) = Rejected (msg k)) \<longrightarrow>
      fetchWithRetry s u init =
        Some (Inl (LangblyError
                (JStr (''Request failed after '' @ int_to_string (int n + 1)
                       @ '' attempts: '' @ msg n))
                0 (JStr ''CONNECTION_ERROR'')),
         s\<lparr>events := events s
               @ concat (map (\<lambda>i. [Fetch (build_request (self s) u init), Sleep (backoffDelay i)])
                             [0..<n])
               @ [Fetch (build_request (self s) u init)]\<rparr>)
      \<and> length (filter is_Fetch
           (concat (map (\<lambda>i. [Fetch (build_request (self s) u init), Sleep (backoffDelay i)])
                        [0..<n])
            @ [Fetch (build_request (self s) u init)])) = n + 1)
   \<and> (js_less (counter a) (maxRetries (self s))
      \<and> net s (fetches s) (build_request (self s) u init) = Rejected m \<longrightarrow>
        fetchWithRetry_loop s u init a le =
          fetchWithRetry_loop
            (s\<lparr>events := events s @ [Fetch (build_request (self s) u init),
                                      Sleep (backoffDelay a)]\<rparr>)
            u init (increment a) (Some (Error m))
        \<and> (\<forall>r s'. fetchWithRetry_loop s u init a le = Some (r, s') \<longrightarrow>
             (\<exists>es. events s' = events s @ [Fetch (build_request (self s) u init),
                                           Sleep (backoffDelay a)] @ es
                  \<and> (js_le (counter (increment a)) (maxRetries (self s)) \<longrightarrow>
                       (\<exists>es'. es = Fetch (build_request (self s) u init) # es'))))
        \<and> (maxRetries (self s) = counter n \<and> n < 2 ^ 53 \<longrightarrow>
             (\<exists>r s' es. fetchWithRetry_loop s u init a le = Some (r, s')
                  \<and> events s' = events s @ [Fetch (build_request (self s) u init),
                                             Sleep (backoffDelay a),
                                             Fetch (build_request (self s) u init)] @ es)))
   \<and> (js_le (counter a) (maxRetries (self s))
      \<and> \<not> js_less (counter a) (maxRetries (self s))
      \<and> net s (fetches s) (build_request (self s) u init) = Rejected m \<longrightarrow>
        fetchWithRetry_loop s u init a le =
          Some (Inl (LangblyError
                  (JStr (''Request failed after ''
                         @ number_to_string (js_plus (maxRetries (self s)) (Fin 1))
                         @ '' attempts: '' @ m))
                  0 (JStr ''CONNECTION_ERROR'')),
                s\<lparr>events := events s @ [Fetch (build_request (self s) u init)]\<rparr>)
        \<and> maxRetries (self s) = counter a)"
proof -
  let ?req = "build_request (self s) u init"
  have cnt: "length (filter is_Fetch (concat (map (\<lambda>i. [Fetch ?req, Sleep (backoffDelay i)]) [0..<k]))) = k" for k
    by (induction k) simp_all
  have all: "fetchWithRetry s u init =
        Some (Inl (LangblyError
                (JStr (''Request failed after '' @ int_to_string (int n + 1)
                       @ '' attempts: '' @ msg n))
                0 (JStr ''CONNECTION_ERROR'')),
         s\<lparr>events := events s
               @ concat (map (\<lambda>i. [Fetch ?req, Sleep (backoffDelay i)]) [0..<n])
               @ [Fetch ?req]\<rparr>)
      \<and> length (filter is_Fetch
           (concat (map (\<lambda>i. [Fetch ?req, Sleep (backoffDelay i)]) [0..<n]) @ [Fetch ?req])) = n + 1"
    if h: "maxRetries (self s) = counter n" "n < 2 ^ 53"
      "\<forall>k \<le> n. net s (fetches s + k) ?req = Rejected (msg k)"
  proof -
    have z: "(0::nat) \<le> n" by simp
    have b: "\<forall>j. 0 + j \<le> n \<longrightarrow> net s (fetches s + j) ?req = Rejected (msg (0 + j))"
      using h(3) by simp
    show ?thesis
      unfolding fetchWithRetry_def loop_all_rejected[OF h(1,2) z b, of None]
      by (simp add: cnt)
  qed
  have retry: "fetchWithRetry_loop s u init a le =
          fetchWithRetry_loop
            (s\<lparr>events := events s @ [Fetch ?req, Sleep (backoffDelay a)]\<rparr>)
            u init (increment a) (Some (Error m))
        \<and> (\<forall>r s'. fetchWithRetry_loop s u init a le = Some (r, s') \<longrightarrow>
             (\<exists>es. events s' = events s @ [Fetch ?req, Sleep (backoffDelay a)] @ es
                  \<and> (js_le (counter (increment a)) (maxRetries (self s)) \<longrightarrow>
                       (\<exists>es'. es = Fetch ?req # es'))))
        \<and> (maxRetries (self s) = counter n \<and> n < 2 ^ 53 \<longrightarrow>
             (\<exists>r s' es. fetchWithRetry_loop s u init a le = Some (r, s')
                  \<and> events s' = events s @ [Fetch ?req, Sleep (backoffDelay a), Fetch ?req] @ es))"
    if lt: "js_less (counter a) (maxRetries (self s))"
      and rej: "net s (fetches s) ?req = Rejected m"
  proof -
    note step = loop_rejected_retry[OF lt rej, of le]
    from after_sleep[OF lt step, of n] step show ?thesis by blast
  qed
  have final: "fetchWithRetry_loop s u init a le =
          Some (Inl (LangblyError
                  (JStr (''Request failed after ''
                         @ number_to_string (js_plus (maxRetries (self s)) (Fin 1))
                         @ '' attempts: '' @ m))
                  0 (JStr ''CONNECTION_ERROR'')),
                s\<lparr>events := events s @ [Fetch ?req]\<rparr>)
        \<and> maxRetries (self s) = counter a"
    if le: "js_le (counter a) (maxRetries (self s))"
      and nl: "\<not> js_less (counter a) (maxRetries (self s))"
      and rej: "net s (fetches s) ?req = Rejected m"
  proof -
    have "maxRetries (self s) = counter a"
      using le nl by (cases "maxRetries (self s)") (simp_all add: counter_def)
    with loop_rejected_final[OF le nl rej, of le] show ?thesis by simp
  qed
  from all retry final show ?thesis by blast
qed

lemma getRetryDelay_hint:
  assumes "headers resp ''retry-after'' = Some h" and "h \<noteq> []" and "Number_js h = Fin v"
  shows "getRetryDelay resp a = js_min (js_times (Fin v) (Fin 1000)) (Fin 30000)"
  using assms by (simp add: getRetryDelay_def)

lemma hint_exact:
  assumes "- double_limit < v * 1000"
  shows "js_min (js_times (Fin v) (Fin 1000)) (Fin 30000) = Fin (min (v * 1000) 30000)"
proof (cases "double_limit \<le> v * 1000")
  case True
  then have "(30000::rat) \<le> v * 1000" using double_limit_big by linarith
  with True show ?thesis by (simp add: overflow_def min_def)
next
  case False
  with assms show ?thesis by (simp add: overflow_def)
qed

theorem network_failures_retried_witness:
  "fetchWithRetry (example_state (\<lambda>k req. Rejected ''timeout'')) ''u'' get_init =
     Some (Inl (LangblyError (JStr ''Request failed after 3 attempts: timeout'') 0
             (JStr ''CONNECTION_ERROR'')),
      \<lparr>self = example_client, net = \<lambda>k req. Rejected ''timeout'',
       events = [Fetch (build_request example_client ''u'' get_init), Sleep (Fin 500),
                 Fetch (build_request example_client ''u'' get_init), Sleep (Fin 1000),
                 Fetch (build_request example_client ''u'' get_init)]\<rparr>)
   \<and> fetchWithRetry_loop (example_state (\<lambda>k req. Rejected ''timeout'')) ''u'' get_init 2 None =
     Some (Inl (LangblyError (JStr ''Request failed after 3 attempts: timeout'') 0
             (JStr ''CONNECTION_ERROR'')),
      \<lparr>self = example_client, net = \<lambda>k req. Rejected ''timeout'',
       events = [Fetch (build_request example_client ''u'' get_init)]\<rparr>)
   \<and> (\<exists>r s' es. fetchWithRetry_loop (example_state (\<lambda>k req. Rejected ''timeout''))
                     ''u'' get_init 1 None = Some (r, s')
          \<and> events s' = [Fetch (build_request example_client ''u'' get_init), Sleep (Fin 1000),
                          Fetch (build_request example_client ''u'' get_init)] @ es)"
proof -
  let ?s = "example_state (\<lambda>k req. Rejected ''timeout'')"
  have h: "maxRetries (self ?s) = counter 2 \<and> (2::nat) < 2 ^ 53
      \<and> (\<forall>k \<le> 2. net ?s (fetches ?s + k) (build_request (self ?s) ''u'' get_init)
                = Rejected ((\<lambda>_. ''timeout'') k))"
    by (simp add: example_defs counter_def)
  have w: "maxRetries (self ?s) = counter 2 \<and> (2::nat) < 2 ^ 53"
    by (simp add: example_defs counter_def)
  have r1: "js_less (counter (Suc 0)) (maxRetries (self ?s))
      \<and> net ?s (fetches ?s) (build_request (self ?s) ''u'' get_init) = Rejected ''timeout''"
    by (simp add: example_defs counter_def)
  have f2: "js_le (counter 2) (maxRetries (self ?s))
      \<and> \<not> js_less (counter 2) (maxRetries (self ?s))
      \<and> net ?s (fetches ?s) (build_request (self ?s) ''u'' get_init) = Rejected ''timeout''"
    by (simp add: example_defs counter_def)
  have n: "int_to_string 3 = ''3''"
    by (simp add: int_to_string_def nat_digits.simps digit_char_def)
  have n': "number_to_string (js_plus (Fin 2) (Fin 1)) = ''3''"
    using attempts_text[of 2] n by (simp add: counter_def)
  have u: "[0..<2] = [0, Suc 0]" by (simp add: upt_rec)
  have b: "backoffDelay 0 = Fin 500" "backoffDelay (Suc 0) = Fin 1000"
    by (simp_all add: backoffDelay_def backoff_value)
  note T = network_failures_retried[of ?s 2 "''u''" get_init "\<lambda>_. ''timeout''"]
  have "fetchWithRetry ?s ''u'' get_init =
     Some (Inl (LangblyError (JStr ''Request failed after 3 attempts: timeout'') 0
             (JStr ''CONNECTION_ERROR'')),
      \<lparr>self = example_client, net = \<lambda>k req. Rejected ''timeout'',
       events = [Fetch (build_request example_client ''u'' get_init), Sleep (Fin 500),
                 Fetch (build_request example_client ''u'' get_init), Sleep (Fin 1000),
                 Fetch (build_request example_client ''u'' get_init)]\<rparr>)"
    using T[THEN conjunct1, rule_format, OF h, THEN conjunct1] n u b
    by (simp add: example_defs)
  moreover have "fetchWithRetry_loop ?s ''u'' get_init 2 None =
     Some (Inl (LangblyError (JStr ''Request failed after 3 attempts: timeout'') 0
             (JStr ''CONNECTION_ERROR'')),
      \<lparr>self = example_client, net = \<lambda>k req. Rejected ''timeout'',
       events = [Fetch (build_request example_client ''u'' get_init)]\<rparr>)"
    using T[of 2 "''timeout''" None, THEN conjunct2, THEN conjunct2, rule_format, OF f2, THEN conjunct1] n'
    by (simp add: example_defs)
  moreover have "\<exists>r s' es. fetchWithRetry_loop ?s ''u'' get_init 1 None = Some (r, s')
          \<and> events s' = [Fetch (build_request example_client ''u'' get_init), Sleep (Fin 1000),
                          Fetch (build_request example_client ''u'' get_init)] @ es"
    using T[of "Suc 0" "''timeout''" None, THEN conjunct2, THEN conjunct1, rule_format, OF r1,
            THEN conjunct2, THEN conjunct2, rule_format, OF w] b
    by (simp add: example_state_def)
  ultimately show ?thesis by blast
qed

text \<open>
  With \<open>maxRetries = 1.5\<close> and every \<open>fetch\<close> rejected, both attempts are followed by
  a sleep, the loop test then fails, and the call throws the last rejection itself
  from the line after the loop: no \<open>LangblyError\<close>, no code \<open>CONNECTION_ERROR\<close> and no
  count of attempts. With \<open>maxRetries = Infinity\<close> and every \<open>fetch\<close> rejected, the call
  never ends, so it throws nothing.
\<close>

theorem network_failures_counterexample:
  "fetchWithRetry (state_with (Fin (3 / 2)) rejecting_net) ''u'' get_init =
     Some (Inl (Error ''timeout''),
      \<lparr>self = example_client\<lparr>maxRetries := Fin (3 / 2)\<rparr>, net = rejecting_net,
       events = [Fetch (build_request (example_client\<lparr>maxRetries := Fin (3 / 2)\<rparr>) ''u'' get_init),
                 Sleep (Fin 500),
                 Fetch (build_request (example_client\<lparr>maxRetries := Fin (3 / 2)\<rparr>) ''u'' get_init),
                 Sleep (Fin 1000)]\<rparr>)
   \<and> fetchWithRetry (state_with PosInf rejecting_net) ''u'' get_init = None"
proof -
  let ?c = "example_client\<lparr>maxRetries := Fin (3 / 2)\<rparr>"
  let ?s = "state_with (Fin (3 / 2)) rejecting_net"
  let ?req = "build_request ?c ''u'' get_init"
  let ?s1 = "?s\<lparr>events := [Fetch ?req, Sleep (Fin 500)]\<rparr>"
  let ?s2 = "?s\<lparr>events := [Fetch ?req, Sleep (Fin 500), Fetch ?req, Sleep (Fin 1000)]\<rparr>"
  have b: "backoffDelay 0 = Fin 500" "backoffDelay (Suc 0) = Fin 1000"
    by (simp_all add: backoffDelay_def backoff_value)
  have i: "increment 0 = Suc 0" "increment (Suc 0) = Suc (Suc 0)"
    by (simp_all add: increment_def)
  have a0: "js_less (counter 0) (maxRetries (self ?s))"
    "net ?s (fetches ?s) (build_request (self ?s) ''u'' get_init) = Rejected ''timeout''"
    by (simp_all add: state_with_def counter_def rejecting_net_def)
  have a1: "js_less (counter (Suc 0)) (maxRetries (self ?s1))"
    "net ?s1 (fetches ?s1) (build_request (self ?s1) ''u'' get_init) = Rejected ''timeout''"
    by (simp_all add: state_with_def counter_def rejecting_net_def)
  have a2: "\<not> js_le (counter (Suc (Suc 0))) (maxRetries (self ?s2))"
    by (simp add: state_with_def counter_def)
  have e0: "fetchWithRetry_loop ?s ''u'' get_init 0 None =
              fetchWithRetry_loop ?s1 ''u'' get_init (Suc 0) (Some (Error ''timeout''))"
    using loop_rejected_retry[OF a0, of None] b i by (simp add: state_with_def)
  have e1: "fetchWithRetry_loop ?s1 ''u'' get_init (Suc 0) (Some (Error ''timeout'')) =
              fetchWithRetry_loop ?s2 ''u'' get_init (Suc (Suc 0)) (Some (Error ''timeout''))"
    using loop_rejected_retry[OF a1, of "Some (Error ''timeout'')"] b i by (simp add: state_with_def)
  have frac: "fetchWithRetry ?s ''u'' get_init =
     Some (Inl (Error ''timeout''),
      \<lparr>self = ?c, net = rejecting_net,
       events = [Fetch ?req, Sleep (Fin 500), Fetch ?req, Sleep (Fin 1000)]\<rparr>)"
    unfolding fetchWithRetry_def e0 e1 loop_exhausted[OF a2]
    by (simp add: state_with_def)
  have z: "(0::nat) \<le> 2 ^ 53" by simp
  have p: "js_less (counter (2 ^ 53)) (maxRetries (self (state_with PosInf rejecting_net)))"
    by (simp add: state_with_def counter_def)
  have n: "\<forall>k req. case net (state_with PosInf rejecting_net) k req of
                   Rejected m \<Rightarrow> True
                 | Resolved resp \<Rightarrow> \<not> ok resp \<and> status resp \<in> RETRIABLE_STATUS_CODES"
    by (simp add: state_with_def rejecting_net_def)
  have inf: "fetchWithRetry (state_with PosInf rejecting_net) ''u'' get_init = None"
    unfolding fetchWithRetry_def by (rule loop_never_ends[OF p z n])
  from frac inf show ?thesis by blast
qed

text \<open>
  Claim C4, as the code has it. A response whose \<open>Retry-After\<close> header is present, not
  empty, and converts to a finite number \<open>v\<close> gives the delay \<open>min(v * 1000, 30000)\<close>
  milliseconds (computed in JavaScript numbers; it is the exact minimum unless
  \<open>v * 1000\<close> overflows downwards). A header that is absent, empty or not a finite
  number gives the backoff delay \<open>min(500 * 2^attempt, 10000)\<close>. After a retriable
  response with attempts remaining, the loop sleeps for exactly this delay and goes
  on to the next turn, which calls \<open>fetch\<close> again whenever the loop test lets it in, as
  it always does for a whole number \<open>maxRetries\<close> below \<open>2^53\<close>.
\<close>

theorem retry_after_hint_honored:
  "(headers resp ''retry-after'' = Some h \<and> h \<noteq> [] \<and> Number_js h = Fin v \<longrightarrow>
      getRetryDelay resp a = js_min (js_times (Fin v) (Fin 1000)) (Fin 30000)
      \<and> (- double_limit < v * 1000 \<longrightarrow> getRetryDelay resp a = Fin (min (v * 1000) 30000)))
   \<and> ((case headers resp ''retry-after'' of
          None \<Rightarrow> True
        | Some h' \<Rightarrow> h' = [] \<or> \<not> isFinite (Number_js h'))
       \<longrightarrow> getRetryDelay resp a = Fin (min (500 * 2 ^ a) 10000))
   \<and> (js_less (counter a) (maxRetries (self s))
       \<and> net s (fetches s) (build_request (self s) u init) = Resolved resp
       \<and> \<not> ok resp \<and> status resp \<in> {429, 500, 502, 503, 504}
       \<longrightarrow> fetchWithRetry_loop s u init a le =
              fetchWithRetry_loop
                (s\<lparr>events := events s @ [Fetch (build_request (self s) u init),
                                          Sleep (getRetryDelay resp a)]\<rparr>)
                u init (increment a) le
           \<and> (\<forall>r s'. fetchWithRetry_loop s u init a le = Some (r, s') \<longrightarrow>
                (\<exists>es. events s' = events s @ [Fetch (build_request (self s) u init),
                                              Sleep (getRetryDelay resp a)] @ es
                     \<and> (js_le (counter (increment a)) (maxRetries (self s)) \<longrightarrow>
                          (\<exists>es'. es = Fetch (build_request (self s) u init) # es'))))
           \<and> (maxRetries (self s) = counter n \<and> n < 2 ^ 53 \<longrightarrow>
                (\<exists>r s' es. fetchWithRetry_loop s u init a le = Some (r, s')
                     \<and> events s' = events s @ [Fetch (build_request (self s) u init),
                                                Sleep (getRetryDelay resp a),
                                                Fetch (build_request (self s) u init)] @ es)))"
proof -
  let ?req = "build_request (self s) u init"
  have "getRetryDelay resp a = js_min (js_times (Fin v) (Fin 1000)) (Fin 30000)
        \<and> (- double_limit < v * 1000 \<longrightarrow> getRetryDelay resp a = Fin (min (v * 1000) 30000))"
    if "headers resp ''retry-after'' = Some h" "h \<noteq> []" "Number_js h = Fin v"
    using getRetryDelay_hint[OF that] hint_exact by simp
  moreover have "fetchWithRetry_loop s u init a le =
              fetchWithRetry_loop
                (s\<lparr>events := events s @ [Fetch ?req, Sleep (getRetryDelay resp a)]\<rparr>)
                u init (increment a) le
           \<and> (\<forall>r s'. fetchWithRetry_loop s u init a le = Some (r, s') \<longrightarrow>
                (\<exists>es. events s' = events s @ [Fetch ?req, Sleep (getRetryDelay resp a)] @ es
                     \<and> (js_le (counter (increment a)) (maxRetries (self s)) \<longrightarrow>
                          (\<exists>es'. es = Fetch ?req # es'))))
           \<and> (maxRetries (self s) = counter n \<and> n < 2 ^ 53 \<longrightarrow>
                (\<exists>r s' es. fetchWithRetry_loop s u init a le = Some (r, s')
                     \<and> events s' = events s @ [Fetch ?req, Sleep (getRetryDelay resp a),
                                                Fetch ?req] @ es))"
    if lt: "js_less (counter a) (maxRetries (self s))"
      and rs: "net s (fetches s) ?req = Resolved resp"
      and nok: "\<not> ok resp" and st: "status resp \<in> {429, 500, 502, 503, 504}"
  proof -
    have step: "fetchWithRetry_loop s u init a le =
              fetchWithRetry_loop
                (s\<lparr>events := events s @ [Fetch ?req, Sleep (getRetryDelay resp a)]\<rparr>)
                u init (increment a) le"
      using loop_response_retry[OF lt rs nok, of le] st by (simp add: RETRIABLE_STATUS_CODES_def)
    from after_sleep[OF lt step, of n] step show ?thesis by blast
  qed
  ultimately show ?thesis
    using getRetryDelay_fallback by blast
qed

theorem retry_after_hint_honored_witness:
  "getRetryDelay (hinted_response 503 ''7'') 0 = Fin 7000
   \<and> getRetryDelay (hinted_response 503 ''120'') 0 = Fin 30000
   \<and> getRetryDelay (hinted_response 503 ''soon'') 1 = Fin 1000
   \<and> (\<exists>r s' es. fetchWithRetry_loop
                (example_state (\<lambda>k req. Resolved (hinted_response 503 ''7'')))
                ''u'' get_init 0 None = Some (r, s')
          \<and> events s' =
            [Fetch (build_request example_client ''u'' get_init), Sleep (Fin 7000),
             Fetch (build_request example_client ''u'' get_init)] @ es)"
proof -
  let ?s = "example_state (\<lambda>k req. Resolved (hinted_response 503 ''7''))"
  have big: "- double_limit < 7 * 1000" "- double_limit < 120 * 1000"
    using double_limit_big by simp_all
  have h7: "headers (hinted_response 503 ''7'') ''retry-after'' = Some ''7''
            \<and> ''7'' \<noteq> [] \<and> Number_js ''7'' = Fin 7"
    by (simp add: hinted_response_def Number_js_examples)
  have h120: "headers (hinted_response 503 ''120'') ''retry-after'' = Some ''120''
            \<and> ''120'' \<noteq> [] \<and> Number_js ''120'' = Fin 120"
    by (simp add: hinted_response_def Number_js_examples)
  have hsoon: "case headers (hinted_response 503 ''soon'') ''retry-after'' of
                 None \<Rightarrow> True
               | Some h' \<Rightarrow> h' = [] \<or> \<not> isFinite (Number_js h')"
    by (simp add: hinted_response_def Number_js_examples)
  have a: "getRetryDelay (hinted_response 503 ''7'') 0 = Fin 7000"
    using retry_after_hint_honored[THEN conjunct1, rule_format, OF h7, of 0] big by auto
  have b: "getRetryDelay (hinted_response 503 ''120'') 0 = Fin 30000"
    using retry_after_hint_honored[THEN conjunct1, rule_format, OF h120, of 0] big by auto
  have c: "getRetryDelay (hinted_response 503 ''soon'') 1 = Fin 1000"
    using retry_after_hint_honored[THEN conjunct2, THEN conjunct1, rule_format, OF hsoon, of 1]
    by simp
  have run: "js_less (counter 0) (maxRetries (self ?s))
       \<and> net ?s (fetches ?s) (build_request (self ?s) ''u'' get_init)
           = Resolved (hinted_response 503 ''7'')
       \<and> \<not> ok (hinted_response 503 ''7'')
       \<and> status (hinted_response 503 ''7'') \<in> {429, 500, 502, 503, 504}"
    by (simp add: example_state_def example_client_def hinted_response_def ok_def counter_def)
  have w: "maxRetries (self ?s) = counter 2 \<and> (2::nat) < 2 ^ 53"
    by (simp add: example_defs counter_def)
  have d: "\<exists>r s' es. fetchWithRetry_loop ?s ''u'' get_init 0 None = Some (r, s')
          \<and> events s' =
            [Fetch (build_request example_client ''u'' get_init), Sleep (Fin 7000),
             Fetch (build_request example_client ''u'' get_init)] @ es"
    using retry_after_hint_honored[THEN conjunct2, THEN conjunct2, rule_format, OF run,
            THEN conjunct2, THEN conjunct2, rule_format, OF w, of None]
    by (simp add: a example_state_def)
  show ?thesis using a b c d by simp
qed

text \<open>
  An empty \<open>Retry-After\<close> value converts to the finite number 0, yet the delay is the
  backoff delay of 500 ms and not \<open>min(0 * 1000, 30000) = 0\<close>: the header is tested for
  truthiness before it is converted.
\<close>

theorem retry_after_empty_counterexample:
  "headers (hinted_response 503 []) ''retry-after'' = Some []
   \<and> Number_js [] = Fin 0
   \<and> getRetryDelay (hinted_response 503 []) 0 = Fin 500
   \<and> getRetryDelay (hinted_response 503 []) 0 \<noteq> js_min (js_times (Fin 0) (Fin 1000)) (Fin 30000)"
proof -
  have "getRetryDelay (hinted_response 503 []) 0 = Fin 500"
    using getRetryDelay_fallback[of "hinted_response 503 []" 0]
    by (simp add: hinted_response_def)
  moreover have "js_min (js_times (Fin 0) (Fin 1000)) (Fin 30000) = Fin 0"
    using hint_exact[of 0] double_limit_big by simp
  ultimately show ?thesis
    using Number_js_examples by (simp add: hinted_response_def)
qed

section \<open>Properties of the error mapping\<close>

lemma nullish_or_present: "c \<noteq> JNull \<Longrightarrow> nullish_or (Some c) d = c"
  by (cases c) simp_all

text \<open>
  Claim C5, as the code has it. \<open>throwForStatus\<close> throws an \<open>AuthenticationError\<close>
  (status 401, code \<open>UNAUTHENTICATED\<close>) for status 401; a \<open>RateLimitError\<close> (status
  429, code \<open>RATE_LIMITED\<close>) for status 429, whose \<open>retryAfter\<close> is the number of the
  \<open>Retry-After\<close> header when that header is present, not empty and converts to a finite
  number, and \<open>null\<close> otherwise; and for every other status a \<open>LangblyError\<close> with the
  status of the response and the code \<open>error.status\<close> of the body when present.
\<close>

theorem throwForStatus_typed_errors:
  "(status resp = 401 \<longrightarrow>
      (\<exists>m. throwForStatus resp = AuthenticationError m)
      \<and> error_status (throwForStatus resp) = Some 401
      \<and> error_code (throwForStatus resp) = Some (JStr ''UNAUTHENTICATED''))
   \<and> (status resp = 429 \<longrightarrow>
      (\<exists>m. throwForStatus resp =
            RateLimitError m
              (case headers resp ''retry-after'' of
                 None \<Rightarrow> None
               | Some h \<Rightarrow> if h \<noteq> [] \<and> isFinite (Number_js h) then Some (Number_js h) else None))
      \<and> error_status (throwForStatus resp) = Some 429
      \<and> error_code (throwForStatus resp) = Some (JStr ''RATE_LIMITED''))
   \<and> (status resp \<noteq> 401 \<and> status resp \<noteq> 429 \<longrightarrow>
      (\<exists>m. throwForStatus resp =
            LangblyError m (status resp)
              (case body resp of
                 None \<Rightarrow> JStr []
               | Some err \<Rightarrow>
                   nullish_or (opt_chain (opt_chain (Some err) ''error'') ''status'') (JStr [])))
      \<and> error_status (throwForStatus resp) = Some (status resp))
   \<and> (status resp \<noteq> 401 \<and> status resp \<noteq> 429
       \<and> body resp = Some (JObj kvs) \<and> map_of kvs ''error'' = Some (JObj ekvs)
       \<and> map_of ekvs ''status'' = Some c \<and> c \<noteq> JNull \<longrightarrow>
      error_code (throwForStatus resp) = Some c)"
proof -
  have a: "status resp = 401 \<Longrightarrow>
      (\<exists>m. throwForStatus resp = AuthenticationError m)
      \<and> error_status (throwForStatus resp) = Some 401
      \<and> error_code (throwForStatus resp) = Some (JStr ''UNAUTHENTICATED'')"
    by (simp add: throwForStatus_def Let_def split: option.splits prod.splits)
  have b: "status resp = 429 \<Longrightarrow>
      (\<exists>m. throwForStatus resp =
            RateLimitError m
              (case headers resp ''retry-after'' of
                 None \<Rightarrow> None
               | Some h \<Rightarrow> if h \<noteq> [] \<and> isFinite (Number_js h) then Some (Number_js h) else None))
      \<and> error_status (throwForStatus resp) = Some 429
      \<and> error_code (throwForStatus resp) = Some (JStr ''RATE_LIMITED'')"
    by (simp add: throwForStatus_def parseRetryAfter_def Let_def split: option.splits prod.splits)
  have c: "status resp \<noteq> 401 \<and> status resp \<noteq> 429 \<Longrightarrow>
      (\<exists>m. throwForStatus resp =
            LangblyError m (status resp)
              (case body resp of
                 None \<Rightarrow> JStr []
               | Some err \<Rightarrow>
                   nullish_or (opt_chain (opt_chain (Some err) ''error'') ''status'') (JStr [])))
      \<and> error_status (throwForStatus resp) = Some (status resp)"
    by (simp add: throwForStatus_def Let_def split: option.splits prod.splits)
  have d: "status resp \<noteq> 401 \<and> status resp \<noteq> 429
       \<and> body resp = Some (JObj kvs) \<and> map_of kvs ''error'' = Some (JObj ekvs)
       \<and> map_of ekvs ''status'' = Some c \<and> c \<noteq> JNull \<Longrightarrow>
      error_code (throwForStatus resp) = Some c"
    by (simp add: throwForStatus_def Let_def nullish_or_present split: prod.splits)
  show ?thesis using a b c d by blast
qed

theorem throwForStatus_typed_errors_witness:
  "throwForStatus (plain_response 401 ''Unauthorized'') = AuthenticationError (JStr ''Unauthorized'')
   \<and> throwForStatus (hinted_response 429 ''7'') = RateLimitError (JStr ''Unavailable'') (Some (Fin 7))
   \<and> throwForStatus (hinted_response 429 ''soon'') = RateLimitError (JStr ''Unavailable'') None
   \<and> throwForStatus (error_response 403 ''Forbidden''
         (JObj [(''error'', JObj [(''message'', JStr ''Key disabled''),
                                  (''status'', JStr ''PERMISSION_DENIED'')])]))
      = LangblyError (JStr ''Key disabled'') 403 (JStr ''PERMISSION_DENIED'')"
proof -
  let ?e = "error_response 403 ''Forbidden''
         (JObj [(''error'', JObj [(''message'', JStr ''Key disabled''),
                                  (''status'', JStr ''PERMISSION_DENIED'')])])"
  have "throwForStatus (plain_response 401 ''Unauthorized'') = AuthenticationError (JStr ''Unauthorized'')"
    using throwForStatus_typed_errors[of "plain_response 401 ''Unauthorized''", THEN conjunct1]
    by (auto simp: plain_response_def throwForStatus_def)
  moreover have "throwForStatus (hinted_response 429 ''7'') = RateLimitError (JStr ''Unavailable'') (Some (Fin 7))"
    using throwForStatus_typed_errors[of "hinted_response 429 ''7''", THEN conjunct2, THEN conjunct1]
      Number_js_examples
    by (auto simp: hinted_response_def throwForStatus_def)
  moreover have "throwForStatus (hinted_response 429 ''soon'') = RateLimitError (JStr ''Unavailable'') None"
    using throwForStatus_typed_errors[of "hinted_response 429 ''soon''", THEN conjunct2, THEN conjunct1]
      Number_js_examples
    by (auto simp: hinted_response_def throwForStatus_def)
  moreover have "throwForStatus ?e = LangblyError (JStr ''Key disabled'') 403 (JStr ''PERMISSION_DENIED'')"
    using throwForStatus_typed_errors[of ?e, THEN conjunct2, THEN conjunct2, THEN conjunct1]
    by (auto simp: error_response_def throwForStatus_def)
  ultimately show ?thesis by blast
qed

text \<open>
  An empty \<open>Retry-After\<close> value converts to the finite number 0, yet \<open>retryAfter\<close> is
  \<open>null\<close>: \<open>parseRetryAfter\<close> returns \<open>null\<close> for a falsy header before converting it.
\<close>

theorem rate_limit_empty_hint_counterexample:
  "status (hinted_response 429 []) = 429
   \<and> headers (hinted_response 429 []) ''retry-after'' = Some []
   \<and> Number_js [] = Fin 0 \<and> isFinite (Number_js [])
   \<and> throwForStatus (hinted_response 429 []) = RateLimitError (JStr ''Unavailable'') None"
  using Number_js_examples
  by (simp add: hinted_response_def throwForStatus_def parseRetryAfter_def)

section \<open>Properties of the public operations\<close>

text \<open>
  A call that ends leaves the client and the network as they were, and only adds to
  the events.
\<close>

lemma fetchWithRetry_returned:
  assumes "fetchWithRetry s u init = Some (r, s')"
  shows "self s' = self s \<and> net s' = net s
       \<and> (\<exists>es. events s' = events s @ es
              \<and> (\<forall>e \<in> set es. is_Fetch e \<longrightarrow> e = Fetch (build_request (self s) u init)))
       \<and> (\<forall>resp. r = Inr resp \<longrightarrow> ok resp)"
  using loop_returned[OF assms[unfolded fetchWithRetry_def]] by blast

lemma postWithRetry_returned:
  assumes "postWithRetry s path b = Some (r, s')"
  shows "\<exists>r0. fetchWithRetry s (baseUrl (self s) @ path)
                \<lparr>init_method = ''POST'',
                 init_headers = Some [(''Content-Type'', ''application/json'')],
                 init_body = Some b\<rparr> = Some (r0, s')"
  using assms
  by (auto simp: postWithRetry_def split: option.splits prod.splits sum.splits)

lemma translate_returned:
  assumes "translate s text options = Some (r, s')"
  shows "\<exists>r0. fetchWithRetry s (baseUrl (self s) @ ''/language/translate/v2'')
                \<lparr>init_method = ''POST'',
                 init_headers = Some [(''Content-Type'', ''application/json'')],
                 init_body = Some (translate_body text options)\<rparr> = Some (r0, s')"
proof -
  from assms obtain r1 where
    "postWithRetry s ''/language/translate/v2'' (translate_body text options) = Some (r1, s')"
    by (auto simp: translate_def split: option.splits prod.splits sum.splits)
  from postWithRetry_returned[OF this] show ?thesis .
qed

lemma detect_returned:
  assumes "detect s txt = Some (r, s')"
  shows "\<exists>r0. fetchWithRetry s (baseUrl (self s) @ ''/language/translate/v2/detect'')
                \<lparr>init_method = ''POST'',
                 init_headers = Some [(''Content-Type'', ''application/json'')],
                 init_body = Some (JObj [(''q'', JStr txt)])\<rparr> = Some (r0, s')"
proof -
  from assms obtain r1 where
    "postWithRetry s ''/language/translate/v2/detect'' (JObj [(''q'', JStr txt)]) = Some (r1, s')"
    by (auto simp: detect_def split: option.splits prod.splits sum.splits)
  from postWithRetry_returned[OF this] show ?thesis .
qed

lemma languages_returned:
  assumes "languages s options = Some (r, s')"
  shows "\<exists>r0. fetchWithRetry s (baseUrl (self s) @ languages_url options)
                \<lparr>init_method = ''GET'', init_headers = None, init_body = None\<rparr> = Some (r0, s')"
  using assms
  by (auto simp: languages_def split: option.splits prod.splits sum.splits)

lemma state_events_only:
  fixes s s' :: state
  shows "self s' = self s \<Longrightarrow> net s' = net s \<Longrightarrow> s' = s\<lparr>events := events s'\<rparr>"
  by (cases s, cases s') simp

lemma returned_frame:
  assumes "fetchWithRetry s u init = Some (r, s')"
  shows "self s' = self s \<and> s' = s\<lparr>events := events s'\<rparr>"
  using fetchWithRetry_returned[OF assms] state_events_only[of s' s] by simp

lemma map_result_Inr:
  "map_result f xs = Inr ys \<Longrightarrow>
   length ys = length xs \<and> (\<forall>i < length xs. f (xs ! i) = Inr (ys ! i))"
proof (induction xs arbitrary: ys)
  case Nil
  then show ?case by simp
next
  case (Cons x xs)
  from Cons.prems obtain y ys' where
    y: "f x = Inr y" and ys': "map_result f xs = Inr ys'" and ys: "ys = y # ys'"
    by (auto split: sum.splits)
  from Cons.IH[OF ys'] y ys show ?case
    by (auto simp: nth_Cons split: nat.splits)
qed

lemma get_prop_opt_chain:
  "get_prop (Some item) k = Inr v \<Longrightarrow> v = opt_chain (Some item) k"
  by (cases item) auto

lemma nullish_defined:
  "nullish (nullish d (map_option JStr src)) (Some (JStr [])) \<noteq> None
   \<and> nullish (nullish d (map_option JStr src)) (Some (JStr [])) \<noteq> Some JNull"
proof (cases d)
  case None
  then show ?thesis by (cases src) simp_all
next
  case (Some v)
  then show ?thesis by (cases v; cases src) simp_all
qed

lemma translation_of_source:
  assumes "translation_of options item = Inr t"
  shows "tr_source t = spec_source options item
         \<and> tr_source t \<noteq> None \<and> tr_source t \<noteq> Some JNull"
proof -
  from assms obtain d where
    d: "get_prop (Some item) ''detectedSourceLanguage'' = Inr d"
    and t: "tr_source t = nullish (nullish d (map_option JStr (source options))) (Some (JStr []))"
    by (auto simp: translation_of_def split: sum.splits)
  have dd: "d = opt_chain (Some item) ''detectedSourceLanguage''"
    by (rule get_prop_opt_chain[OF d])
  have "nullish (nullish d (map_option JStr (source options))) (Some (JStr [])) = spec_source options item"
  proof (cases d)
    case None
    then show ?thesis using dd by (cases "source options") (simp_all add: spec_source_def)
  next
    case (Some v)
    then show ?thesis using dd
      by (cases v; cases "source options") (simp_all add: spec_source_def)
  qed
  with t nullish_defined[of d "source options"] show ?thesis by simp
qed

lemma array_map_Inr:
  "array_map v f = Inr ys \<Longrightarrow> \<exists>xs. v = Some (JArr xs) \<and> map_result f xs = Inr ys"
  by (cases "(v, f)" rule: array_map.cases) auto

lemma translate_success:
  assumes "translate s text options = Some (Inr r, s')"
  shows "\<exists>resp d d1 items ts.
           fetchWithRetry s (baseUrl (self s) @ ''/language/translate/v2'')
             \<lparr>init_method = ''POST'',
              init_headers = Some [(''Content-Type'', ''application/json'')],
              init_body = Some (translate_body text options)\<rparr> = Some (Inr resp, s')
         \<and> body resp = Some d
         \<and> get_prop (Some d) ''data'' = Inr d1
         \<and> get_prop d1 ''translations'' = Inr (Some (JArr items))
         \<and> map_result (translation_of options) items = Inr ts
         \<and> r = (case text of
                  Many _ \<Rightarrow> ManyTranslations ts
                | One _ \<Rightarrow> OneTranslation (case ts of [] \<Rightarrow> None | t # _ \<Rightarrow> Some t))"
  using assms
  by (auto simp: translate_def postWithRetry_def
           split: prod.splits sum.splits option.splits dest!: array_map_Inr)

lemma first_ok:
  assumes "js_le (counter 0) (maxRetries (self s))"
    and "net s (fetches s) (build_request (self s) u init) = Resolved resp"
    and "ok resp"
  shows "fetchWithRetry s u init =
           Some (Inr resp, s\<lparr>events := events s @ [Fetch (build_request (self s) u init)]\<rparr>)"
  unfolding fetchWithRetry_def by (rule loop_ok[OF assms])

lemma translate_ok_first:
  assumes "js_le (counter 0) (maxRetries (self s))"
    and "net s (fetches s) (translate_request (self s) text options) = Resolved resp"
    and "ok resp"
  shows "fetchWithRetry s (baseUrl (self s) @ ''/language/translate/v2'')
           \<lparr>init_method = ''POST'',
            init_headers = Some [(''Content-Type'', ''application/json'')],
            init_body = Some (translate_body text options)\<rparr>
         = Some (Inr resp,
                 s\<lparr>events := events s @ [Fetch (translate_request (self s) text options)]\<rparr>)"
  using first_ok[OF assms(1) assms(2)[unfolded translate_request_def] assms(3)]
  by (simp add: translate_request_def)

lemma translate_example_run:
  "translate (example_state (\<lambda>k req. Resolved translations_response))
     (Many [''Hello'', ''Bye'']) example_options
   = Some (Inr (ManyTranslations
        [\<lparr>tr_text = Some (JStr ''Hallo''), tr_source = Some (JStr ''fr''), tr_model = None\<rparr>,
         \<lparr>tr_text = Some (JStr ''Dag''), tr_source = Some (JStr ''en''), tr_model = None\<rparr>]),
      \<lparr>self = example_client, net = \<lambda>k req. Resolved translations_response,
       events = [Fetch (translate_request example_client (Many [''Hello'', ''Bye'']) example_options)]\<rparr>)"
proof -
  let ?s = "example_state (\<lambda>k req. Resolved translations_response)"
  have h: "js_le (counter 0) (maxRetries (self ?s))"
    "net ?s (fetches ?s) (translate_request (self ?s) (Many [''Hello'', ''Bye'']) example_options)
       = Resolved translations_response"
    "ok translations_response"
    by (simp_all add: example_defs ok_def translations_response_def counter_def)
  show ?thesis
    unfolding translate_def postWithRetry_def translate_ok_first[OF h]
    by (simp add: translations_response_def translation_of_def example_options_def example_defs)
qed

lemma detect_example_run:
  "detect (example_state (\<lambda>k req. Resolved detections_response)) ''Bonjour''
   = Some (Inr \<lparr>language = Some (JStr ''fr''), confidence = Some (JNum (Fin 0))\<rparr>,
      \<lparr>self = example_client, net = \<lambda>k req. Resolved detections_response,
       events = [Fetch (build_request example_client
                   ''https://api.langbly.com/language/translate/v2/detect''
                   \<lparr>init_method = ''POST'',
                    init_headers = Some [(''Content-Type'', ''application/json'')],
                    init_body = Some (JObj [(''q'', JStr ''Bonjour'')])\<rparr>)]\<rparr>)"
proof -
  let ?s = "example_state (\<lambda>k req. Resolved detections_response)"
  let ?u = "baseUrl (self ?s) @ ''/language/translate/v2/detect''"
  let ?init = "\<lparr>init_method = ''POST'',
                init_headers = Some [(''Content-Type'', ''application/json'')],
                init_body = Some (JObj [(''q'', JStr ''Bonjour'')])\<rparr>"
  have h: "js_le (counter 0) (maxRetries (self ?s))"
    "net ?s (fetches ?s) (build_request (self ?s) ?u ?init) = Resolved detections_response"
    "ok detections_response"
    by (simp_all add: example_defs ok_def detections_response_def counter_def)
  show ?thesis
    unfolding detect_def postWithRetry_def first_ok[OF h]
    by (simp add: detections_response_def example_defs)
qed

lemma languages_example_run:
  "languages (example_state (\<lambda>k req. Resolved languages_response)) None
   = Some (Inr [\<lparr>code = Some (JStr ''nl''), name = Some (JStr ''Dutch'')\<rparr>,
                \<lparr>code = Some (JStr ''fr''), name = None\<rparr>],
      \<lparr>self = example_client, net = \<lambda>k req. Resolved languages_response,
       events = [Fetch (build_request example_client
                   ''https://api.langbly.com/language/translate/v2/languages''
                   \<lparr>init_method = ''GET'', init_headers = None, init_body = None\<rparr>)]\<rparr>)"
proof -
  let ?s = "example_state (\<lambda>k req. Resolved languages_response)"
  let ?u = "baseUrl (self ?s) @ languages_url None"
  let ?init = "\<lparr>init_method = ''GET'', init_headers = None, init_body = None\<rparr>"
  have h: "js_le (counter 0) (maxRetries (self ?s))"
    "net ?s (fetches ?s) (build_request (self ?s) ?u ?init) = Resolved languages_response"
    "ok languages_response"
    by (simp_all add: example_defs ok_def languages_response_def counter_def)
  show ?thesis
    unfolding languages_def first_ok[OF h]
    by (simp add: languages_response_def example_defs language_of_def languages_url_def)
qed

text \<open>With \<open>maxRetries\<close> below \<open>2^53\<close> every call ends.\<close>

lemma fetchWithRetry_ends:
  assumes "\<not> js_le (counter (2 ^ 53)) (maxRetries (self s))"
  shows "\<exists>r s'. fetchWithRetry s u init = Some (r, s')"
  using loop_ends[OF assms, of u init 0 None] by (auto simp: fetchWithRetry_def)

lemma postWithRetry_ends:
  assumes "\<not> js_le (counter (2 ^ 53)) (maxRetries (self s))"
  shows "\<exists>r s'. postWithRetry s path b = Some (r, s')"
proof -
  from fetchWithRetry_ends[OF assms] obtain r0 s' where
    "fetchWithRetry s (baseUrl (self s) @ path)
       \<lparr>init_method = ''POST'',
        init_headers = Some [(''Content-Type'', ''application/json'')],
        init_body = Some b\<rparr> = Some (r0, s')" by blast
  then show ?thesis
    by (auto simp: postWithRetry_def split: sum.splits option.splits)
qed

lemma translate_ends:
  assumes "\<not> js_le (counter (2 ^ 53)) (maxRetries (self s))"
  shows "\<exists>r s'. translate s text options = Some (r, s')"
proof -
  from postWithRetry_ends[OF assms] obtain r0 s' where
    "postWithRetry s ''/language/translate/v2'' (translate_body text options) = Some (r0, s')"
    by blast
  then show ?thesis
    by (auto simp: translate_def split: sum.splits)
qed

lemma detect_ends:
  assumes "\<not> js_le (counter (2 ^ 53)) (maxRetries (self s))"
  shows "\<exists>r s'. detect s txt = Some (r, s')"
proof -
  from postWithRetry_ends[OF assms] obtain r0 s' where
    "postWithRetry s ''/language/translate/v2/detect'' (JObj [(''q'', JStr txt)]) = Some (r0, s')"
    by blast
  then show ?thesis
    by (auto simp: detect_def split: sum.splits)
qed

lemma languages_ends:
  assumes "\<not> js_le (counter (2 ^ 53)) (maxRetries (self s))"
  shows "\<exists>r s'. languages s lopts = Some (r, s')"
proof -
  from fetchWithRetry_ends[OF assms] obtain r0 s' where
    "fetchWithRetry s (baseUrl (self s) @ languages_url lopts)
       \<lparr>init_method = ''GET'', init_headers = None, init_body = None\<rparr> = Some (r0, s')"
    by blast
  then show ?thesis
    by (auto simp: languages_def split: sum.splits option.splits)
qed

text \<open>
  Claim C7. The fields \<open>apiKey\<close>, \<open>baseUrl\<close>, \<open>timeout\<close> and \<open>maxRetries\<close> of the client
  are the same after \<open>translate\<close>, \<open>detect\<close> and \<open>languages\<close> as before, whatever the
  arguments and whatever the network answers: a call that ends changes nothing in the
  state but the record of fetches and sleeps, so a later call finds the client as the
  constructor left it. On a client whose \<open>maxRetries\<close> is below \<open>2^53\<close> each of the
  three calls ends.
\<close>

theorem configuration_unchanged:
  "(translate s text topts = Some (r1, s1) \<longrightarrow>
      self s1 = self s \<and> s1 = s\<lparr>events := events s1\<rparr>)
   \<and> (detect s txt = Some (r2, s2) \<longrightarrow>
      self s2 = self s \<and> s2 = s\<lparr>events := events s2\<rparr>)
   \<and> (languages s lopts = Some (r3, s3) \<longrightarrow>
      self s3 = self s \<and> s3 = s\<lparr>events := events s3\<rparr>)
   \<and> (\<not> js_le (counter (2 ^ 53)) (maxRetries (self s)) \<longrightarrow>
      (\<exists>r s'. translate s text topts = Some (r, s'))
      \<and> (\<exists>r s'. detect s txt = Some (r, s'))
      \<and> (\<exists>r s'. languages s lopts = Some (r, s')))"
proof -
  have t: "self s1 = self s \<and> s1 = s\<lparr>events := events s1\<rparr>"
    if "translate s text topts = Some (r1, s1)"
    using translate_returned[OF that] returned_frame by blast
  have d: "self s2 = self s \<and> s2 = s\<lparr>events := events s2\<rparr>"
    if "detect s txt = Some (r2, s2)"
    using detect_returned[OF that] returned_frame by blast
  have l: "self s3 = self s \<and> s3 = s\<lparr>events := events s3\<rparr>"
    if "languages s lopts = Some (r3, s3)"
    using languages_returned[OF that] returned_frame by blast
  have e: "(\<exists>r s'. translate s text topts = Some (r, s'))
      \<and> (\<exists>r s'. detect s txt = Some (r, s'))
      \<and> (\<exists>r s'. languages s lopts = Some (r, s'))"
    if "\<not> js_le (counter (2 ^ 53)) (maxRetries (self s))"
    using translate_ends[OF that] detect_ends[OF that] languages_ends[OF that] by blast
  from t d l e show ?thesis by blast
qed

theorem configuration_unchanged_witness:
  "self \<lparr>self = example_client, net = \<lambda>k req. Resolved translations_response,
       events = [Fetch (translate_request example_client (Many [''Hello'', ''Bye'']) example_options)]\<rparr>
     = self (example_state (\<lambda>k req. Resolved translations_response))
   \<and> (\<exists>r s'. detect (example_state (\<lambda>k req. Resolved detections_response)) ''Bonjour''
                = Some (r, s') \<and> self s' = example_client)
   \<and> (\<exists>r s'. languages (example_state (\<lambda>k req. Resolved languages_response)) None
                = Some (r, s') \<and> self s' = example_client)"
proof -
  note T = configuration_unchanged
  have a: "self \<lparr>self = example_client, net = \<lambda>k req. Resolved translations_response,
       events = [Fetch (translate_request example_client (Many [''Hello'', ''Bye'']) example_options)]\<rparr>
     = self (example_state (\<lambda>k req. Resolved translations_response))"
    using T[THEN conjunct1, rule_format, OF translate_example_run] by (rule conjunct1)
  have b: "\<exists>r s'. detect (example_state (\<lambda>k req. Resolved detections_response)) ''Bonjour''
                = Some (r, s') \<and> self s' = example_client"
    using T[THEN conjunct2, THEN conjunct1, rule_format, OF detect_example_run] detect_example_run
    by (simp add: example_state_def)
  have c: "\<exists>r s'. languages (example_state (\<lambda>k req. Resolved languages_response)) None
                = Some (r, s') \<and> self s' = example_client"
    using T[THEN conjunct2, THEN conjunct2, THEN conjunct1, rule_format, OF languages_example_run]
      languages_example_run
    by (simp add: example_state_def)
  from a b c show ?thesis by blast
qed

text \<open>
  Claim C10. When \<open>translate\<close> returns, its translations are those of the items of the
  array \<open>data.translations\<close> of the response, in order, and the source of each is the
  item's \<open>detectedSourceLanguage\<close> when present, otherwise \<open>options.source\<close> when
  provided, otherwise the empty string; it is never \<open>undefined\<close> (nor \<open>null\<close>).
\<close>

theorem translation_source_never_undefined:
  assumes "translate s text options = Some (Inr r, s')"
  shows "\<exists>resp d d1 items ts.
           fetchWithRetry s (baseUrl (self s) @ ''/language/translate/v2'')
                  \<lparr>init_method = ''POST'',
                   init_headers = Some [(''Content-Type'', ''application/json'')],
                   init_body = Some (translate_body text options)\<rparr> = Some (Inr resp, s')
         \<and> body resp = Some d
         \<and> get_prop (Some d) ''data'' = Inr d1
         \<and> get_prop d1 ''translations'' = Inr (Some (JArr items))
         \<and> r = (case text of
                  Many _ \<Rightarrow> ManyTranslations ts
                | One _ \<Rightarrow> OneTranslation (case ts of [] \<Rightarrow> None | t # _ \<Rightarrow> Some t))
         \<and> length ts = length items
         \<and> (\<forall>i < length items.
               tr_source (ts ! i) = spec_source options (items ! i)
               \<and> tr_source (ts ! i) \<noteq> None \<and> tr_source (ts ! i) \<noteq> Some JNull)"
proof -
  from translate_success[OF assms] obtain resp d d1 items ts where
    f: "fetchWithRetry s (baseUrl (self s) @ ''/language/translate/v2'')
             \<lparr>init_method = ''POST'',
              init_headers = Some [(''Content-Type'', ''application/json'')],
              init_body = Some (translate_body text options)\<rparr> = Some (Inr resp, s')"
    and b: "body resp = Some d" "get_prop (Some d) ''data'' = Inr d1"
      "get_prop d1 ''translations'' = Inr (Some (JArr items))"
    and m: "map_result (translation_of options) items = Inr ts"
    and r: "r = (case text of
                  Many _ \<Rightarrow> ManyTranslations ts
                | One _ \<Rightarrow> OneTranslation (case ts of [] \<Rightarrow> None | t # _ \<Rightarrow> Some t))"
    by blast
  from map_result_Inr[OF m] have len: "length ts = length items"
    and each: "\<forall>i < length items. translation_of options (items ! i) = Inr (ts ! i)"
    by simp_all
  have src: "\<forall>i < length items.
          tr_source (ts ! i) = spec_source options (items ! i)
          \<and> tr_source (ts ! i) \<noteq> None \<and> tr_source (ts ! i) \<noteq> Some JNull"
    using each translation_of_source by blast
  from f b r len src show ?thesis by blast
qed

theorem translation_source_never_undefined_witness:
  "translate (example_state (\<lambda>k req. Resolved translations_response))
     (Many [''Hello'', ''Bye'']) example_options
   = Some (Inr (ManyTranslations
        [\<lparr>tr_text = Some (JStr ''Hallo''), tr_source = Some (JStr ''fr''), tr_model = None\<rparr>,
         \<lparr>tr_text = Some (JStr ''Dag''), tr_source = Some (JStr ''en''), tr_model = None\<rparr>]),
      \<lparr>self = example_client, net = \<lambda>k req. Resolved translations_response,
       events = [Fetch (translate_request example_client (Many [''Hello'', ''Bye'']) example_options)]\<rparr>)
   \<and> spec_source example_options (JObj [(''translatedText'', JStr ''Hallo'')]) = Some (JStr ''fr'')
   \<and> spec_source example_options
         (JObj [(''translatedText'', JStr ''Dag''), (''detectedSourceLanguage'', JStr ''en'')])
       = Some (JStr ''en'')"
  using translation_source_never_undefined[OF translate_example_run] translate_example_run
  by (simp add: spec_source_def example_options_def)

lemma translate_events:
  assumes "translate s text options = Some (r, s')"
  shows "\<exists>es. events s' = events s @ es
        \<and> (\<forall>e \<in> set es. is_Fetch e \<longrightarrow> e = Fetch (translate_request (self s) text options))
        \<and> (\<not> js_le (counter (2 ^ 53)) (maxRetries (self s)) \<longrightarrow>
             length (filter is_Fetch es) \<le> attempts_allowed (maxRetries (self s)))"
proof -
  let ?u = "baseUrl (self s) @ ''/language/translate/v2''"
  let ?init = "\<lparr>init_method = ''POST'',
                init_headers = Some [(''Content-Type'', ''application/json'')],
                init_body = Some (translate_body text options)\<rparr>"
  from translate_returned[OF assms] obtain r0 where
    run: "fetchWithRetry_loop s ?u ?init 0 None = Some (r0, s')"
    by (auto simp: fetchWithRetry_def)
  from loop_returned[OF run] obtain es where
    es: "events s' = events s @ es"
    and rq: "\<forall>e \<in> set es. is_Fetch e \<longrightarrow> e = Fetch (build_request (self s) ?u ?init)"
    by blast
  have "length (filter is_Fetch es) \<le> attempts_allowed (maxRetries (self s))"
    if "\<not> js_le (counter (2 ^ 53)) (maxRetries (self s))"
    using loop_ends[OF that, of ?u ?init 0 None] run es by auto
  with es rq show ?thesis by (auto simp: translate_request_def)
qed

lemma translate_body_q:
  "get_prop (Some (translate_body text options)) ''q'' =
     Inr (Some (JArr (map JStr (translate_q text))))"
  by (simp add: translate_body_def)

text \<open>
  Claim C6, as the code has it. Every request a \<open>translate\<close> call issues is the same
  POST, whose body has \<open>q\<close> equal to the given array unchanged, or to the one-element
  array of a single string. The retry loop sends it once per attempt: a call on a
  client whose \<open>maxRetries\<close> is below \<open>2^53\<close> ends, having sent it at most as many times
  as there are counter values that pass \<open>attempt <= maxRetries\<close>, which is \<open>n + 1\<close> for a
  whole number \<open>n\<close>; and it is sent exactly once when the first attempt gets a response
  that is \<open>ok\<close>. The result is the list of the translations of the items of
  \<open>data.translations\<close>, in order, for an array argument, and the first of them for a
  single string.
\<close>

theorem translate_passes_array_through:
  "req_method (translate_request c text options) = ''POST''
   \<and> req_body (translate_request c text options) = Some (translate_body text options)
   \<and> get_prop (Some (translate_body (Many texts) options)) ''q'' = Inr (Some (JArr (map JStr texts)))
   \<and> get_prop (Some (translate_body (One t) options)) ''q'' = Inr (Some (JArr [JStr t]))
   \<and> (translate s text options = Some (r0, s0) \<longrightarrow>
       (\<exists>es. events s0 = events s @ es
         \<and> (\<forall>e \<in> set es. is_Fetch e \<longrightarrow> e = Fetch (translate_request (self s) text options))
         \<and> (\<not> js_le (counter (2 ^ 53)) (maxRetries (self s)) \<longrightarrow>
              length (filter is_Fetch es) \<le> attempts_allowed (maxRetries (self s)))))
   \<and> (\<not> js_le (counter (2 ^ 53)) (maxRetries (self s)) \<longrightarrow>
       (\<exists>r1 s1. translate s text options = Some (r1, s1)))
   \<and> attempts_allowed (counter n) = n + 1
   \<and> (js_le (counter 0) (maxRetries (self s))
       \<and> net s (fetches s) (translate_request (self s) text options) = Resolved resp
       \<and> ok resp \<longrightarrow>
       (\<exists>r1. translate s text options =
          Some (r1, s\<lparr>events := events s @ [Fetch (translate_request (self s) text options)]\<rparr>)))
   \<and> (translate s text options = Some (Inr r, s') \<longrightarrow>
       (\<exists>resp' d d1 items ts.
           fetchWithRetry s (baseUrl (self s) @ ''/language/translate/v2'')
                  \<lparr>init_method = ''POST'',
                   init_headers = Some [(''Content-Type'', ''application/json'')],
                   init_body = Some (translate_body text options)\<rparr> = Some (Inr resp', s')
         \<and> body resp' = Some d
         \<and> get_prop (Some d) ''data'' = Inr d1
         \<and> get_prop d1 ''translations'' = Inr (Some (JArr items))
         \<and> length ts = length items
         \<and> (\<forall>i < length items. translation_of options (items ! i) = Inr (ts ! i))
         \<and> r = (case text of
                  Many _ \<Rightarrow> ManyTranslations ts
                | One _ \<Rightarrow> OneTranslation (case ts of [] \<Rightarrow> None | t # _ \<Rightarrow> Some t))))"
proof -
  have a: "req_method (translate_request c text options) = ''POST''
           \<and> req_body (translate_request c text options) = Some (translate_body text options)"
    by (simp add: translate_request_def build_request_def)
  have b: "get_prop (Some (translate_body (Many texts) options)) ''q'' = Inr (Some (JArr (map JStr texts)))
           \<and> get_prop (Some (translate_body (One t) options)) ''q'' = Inr (Some (JArr [JStr t]))"
    by (simp add: translate_body_q translate_q_def)
  have c: "\<exists>r1. translate s text options =
          Some (r1, s\<lparr>events := events s @ [Fetch (translate_request (self s) text options)]\<rparr>)"
    if "js_le (counter 0) (maxRetries (self s))"
      "net s (fetches s) (translate_request (self s) text options) = Resolved resp"
      "ok resp"
    unfolding translate_def postWithRetry_def translate_ok_first[OF that]
    by (simp split: option.splits sum.splits)
  have d: "\<exists>resp' d d1 items ts.
           fetchWithRetry s (baseUrl (self s) @ ''/language/translate/v2'')
                  \<lparr>init_method = ''POST'',
                   init_headers = Some [(''Content-Type'', ''application/json'')],
                   init_body = Some (translate_body text options)\<rparr> = Some (Inr resp', s')
         \<and> body resp' = Some d
         \<and> get_prop (Some d) ''data'' = Inr d1
         \<and> get_prop d1 ''translations'' = Inr (Some (JArr items))
         \<and> length ts = length items
         \<and> (\<forall>i < length items. translation_of options (items ! i) = Inr (ts ! i))
         \<and> r = (case text of
                  Many _ \<Rightarrow> ManyTranslations ts
                | One _ \<Rightarrow> OneTranslation (case ts of [] \<Rightarrow> None | t # _ \<Rightarrow> Some t))"
    if "translate s text options = Some (Inr r, s')"
  proof -
    from translate_success[OF that] obtain resp' d d1 items ts where
      f: "fetchWithRetry s (baseUrl (self s) @ ''/language/translate/v2'')
             \<lparr>init_method = ''POST'',
              init_headers = Some [(''Content-Type'', ''application/json'')],
              init_body = Some (translate_body text options)\<rparr> = Some (Inr resp', s')"
      and b: "body resp' = Some d" "get_prop (Some d) ''data'' = Inr d1"
        "get_prop d1 ''translations'' = Inr (Some (JArr items))"
      and m: "map_result (translation_of options) items = Inr ts"
      and r: "r = (case text of
                    Many _ \<Rightarrow> ManyTranslations ts
                  | One _ \<Rightarrow> OneTranslation (case ts of [] \<Rightarrow> None | t # _ \<Rightarrow> Some t))"
      by blast
    from map_result_Inr[OF m] have len: "length ts = length items"
      and each: "\<forall>i < length items. translation_of options (items ! i) = Inr (ts ! i)"
      by simp_all
    from f b len each r show ?thesis by blast
  qed
  have e: "\<exists>es. events s0 = events s @ es
         \<and> (\<forall>e \<in> set es. is_Fetch e \<longrightarrow> e = Fetch (translate_request (self s) text options))
         \<and> (\<not> js_le (counter (2 ^ 53)) (maxRetries (self s)) \<longrightarrow>
              length (filter is_Fetch es) \<le> attempts_allowed (maxRetries (self s)))"
    if "translate s text options = Some (r0, s0)"
    by (rule translate_events[OF that])
  have w: "attempts_allowed (counter n) = n + 1" by (simp add: allowed_whole)
  from a b c d e w translate_ends[of s "text" options] show ?thesis by blast
qed

theorem translate_passes_array_through_witness:
  "translate (example_state (\<lambda>k req. Resolved translations_response))
       (Many [''Hello'', ''Bye'']) example_options
     = Some (Inr (ManyTranslations
        [\<lparr>tr_text = Some (JStr ''Hallo''), tr_source = Some (JStr ''fr''), tr_model = None\<rparr>,
         \<lparr>tr_text = Some (JStr ''Dag''), tr_source = Some (JStr ''en''), tr_model = None\<rparr>]),
        \<lparr>self = example_client, net = \<lambda>k req. Resolved translations_response,
         events = [Fetch (translate_request example_client (Many [''Hello'', ''Bye''])
                            example_options)]\<rparr>)
   \<and> req_body (translate_request example_client (Many [''Hello'', ''Bye'']) example_options)
     = Some (JObj [(''q'', JArr [JStr ''Hello'', JStr ''Bye'']), (''target'', JStr ''nl''),
                   (''source'', JStr ''fr'')])
   \<and> attempts_allowed (maxRetries example_client) = 3"
proof -
  let ?s = "example_state (\<lambda>k req. Resolved translations_response)"
  let ?t = "Many [''Hello'', ''Bye'']"
  have h: "js_le (counter 0) (maxRetries (self ?s))
       \<and> net ?s (fetches ?s) (translate_request (self ?s) ?t example_options)
           = Resolved translations_response
       \<and> ok translations_response"
    by (simp add: example_defs ok_def translations_response_def counter_def)
  note T = translate_passes_array_through[of example_client ?t example_options "[''Hello'', ''Bye'']"
             "''x''" ?s _ _ 2 translations_response]
  from T[THEN conjunct2, THEN conjunct2, THEN conjunct2, THEN conjunct2, THEN conjunct2,
          THEN conjunct2, THEN conjunct2, THEN conjunct1, rule_format, OF h]
  obtain r1 where
    "translate ?s ?t example_options =
       Some (r1, ?s\<lparr>events := events ?s @ [Fetch (translate_request (self ?s) ?t example_options)]\<rparr>)"
    by blast
  then have run: "translate ?s ?t example_options
     = Some (Inr (ManyTranslations
        [\<lparr>tr_text = Some (JStr ''Hallo''), tr_source = Some (JStr ''fr''), tr_model = None\<rparr>,
         \<lparr>tr_text = Some (JStr ''Dag''), tr_source = Some (JStr ''en''), tr_model = None\<rparr>]),
        \<lparr>self = example_client, net = \<lambda>k req. Resolved translations_response,
         events = [Fetch (translate_request example_client ?t example_options)]\<rparr>)"
    using translate_example_run by simp
  have bd: "req_body (translate_request example_client ?t example_options)
     = Some (JObj [(''q'', JArr [JStr ''Hello'', JStr ''Bye'']), (''target'', JStr ''nl''),
                   (''source'', JStr ''fr'')])"
    using T[THEN conjunct2, THEN conjunct1]
    by (simp add: translate_body_def translate_q_def example_options_def)
  have al: "attempts_allowed (maxRetries example_client) = 3"
    using T[THEN conjunct2, THEN conjunct2, THEN conjunct2, THEN conjunct2, THEN conjunct2,
            THEN conjunct2, THEN conjunct1]
    by (simp add: example_client_def counter_def)
  from run bd al show ?thesis by blast
qed

text \<open>
  A batch call on a client with \<open>maxRetries = 2\<close> whose first attempt is answered with
  503 and whose second succeeds: it returns the translations, and two POST requests
  have been issued, not one.
\<close>

theorem translate_retry_counterexample:
  "translate (example_state retried_net) (Many [''Hello'', ''Bye'']) example_options
   = Some (Inr (ManyTranslations
        [\<lparr>tr_text = Some (JStr ''Hallo''), tr_source = Some (JStr ''fr''), tr_model = None\<rparr>,
         \<lparr>tr_text = Some (JStr ''Dag''), tr_source = Some (JStr ''en''), tr_model = None\<rparr>]),
      \<lparr>self = example_client, net = retried_net,
       events = [Fetch (translate_request example_client (Many [''Hello'', ''Bye'']) example_options),
                 Sleep (Fin 500),
                 Fetch (translate_request example_client (Many [''Hello'', ''Bye'']) example_options)]\<rparr>)
   \<and> length (filter is_Fetch
        [Fetch (translate_request example_client (Many [''Hello'', ''Bye'']) example_options),
         Sleep (Fin 500),
         Fetch (translate_request example_client (Many [''Hello'', ''Bye'']) example_options)]) = 2
   \<and> req_method (translate_request example_client (Many [''Hello'', ''Bye'']) example_options) = ''POST''"
proof -
  let ?s = "example_state retried_net"
  let ?t = "Many [''Hello'', ''Bye'']"
  let ?u = "baseUrl (self ?s) @ ''/language/translate/v2''"
  let ?init = "\<lparr>init_method = ''POST'',
                init_headers = Some [(''Content-Type'', ''application/json'')],
                init_body = Some (translate_body ?t example_options)\<rparr>"
  let ?req = "build_request (self ?s) ?u ?init"
  let ?r = "plain_response 503 ''Service Unavailable''"
  let ?s2 = "?s\<lparr>events := events ?s @ [Fetch ?req, Sleep (getRetryDelay ?r 0)]\<rparr>"
  have a: "js_less (counter 0) (maxRetries (self ?s))" "net ?s (fetches ?s) ?req = Resolved ?r"
    "\<not> ok ?r" "status ?r \<in> RETRIABLE_STATUS_CODES"
    by (simp_all add: example_defs retried_net_def ok_def RETRIABLE_STATUS_CODES_def fetches_def
                      counter_def)
  have b: "js_le (counter (Suc 0)) (maxRetries (self ?s2))"
    "net ?s2 (fetches ?s2) (build_request (self ?s2) ?u ?init) = Resolved translations_response"
    "ok translations_response"
    by (simp_all add: example_defs retried_net_def ok_def translations_response_def fetches_def
                      counter_def)
  have i: "increment 0 = Suc 0" by (simp add: increment_def)
  have d: "getRetryDelay ?r 0 = Fin 500"
    using getRetryDelay_fallback[of ?r 0] by (simp add: plain_response_def)
  have run: "fetchWithRetry ?s ?u ?init =
          Some (Inr translations_response,
           ?s2\<lparr>events := events ?s2 @ [Fetch (build_request (self ?s2) ?u ?init)]\<rparr>)"
    unfolding fetchWithRetry_def loop_response_retry[OF a, of None] i
    by (rule loop_ok[OF b])
  have "translate ?s ?t example_options
   = Some (Inr (ManyTranslations
        [\<lparr>tr_text = Some (JStr ''Hallo''), tr_source = Some (JStr ''fr''), tr_model = None\<rparr>,
         \<lparr>tr_text = Some (JStr ''Dag''), tr_source = Some (JStr ''en''), tr_model = None\<rparr>]),
      \<lparr>self = example_client, net = retried_net,
       events = [Fetch (translate_request example_client ?t example_options),
                 Sleep (Fin 500),
                 Fetch (translate_request example_client ?t example_options)]\<rparr>)"
    unfolding translate_def postWithRetry_def run
    by (simp add: d[unfolded plain_response_def] translations_response_def translation_of_def example_options_def
                  example_defs translate_request_def)
  then show ?thesis
    by (simp add: translate_request_def build_request_def)
qed

end
